theory Spec2Isabelle
  imports Main
begin

section \<open>The route API object\<close>

text \<open>
  The command builds one \<^verbatim>\<open>routev1.Route\<close>. Its type is declared by the API package the
  source imports; the records below carry the fields of that type that the command, its
  helpers and the specification speak about. The string-based types of the API
  (\<^verbatim>\<open>TLSTerminationType\<close>, \<^verbatim>\<open>WildcardPolicyType\<close>, \<^verbatim>\<open>InsecureEdgeTerminationPolicyType\<close>)
  are strings, so the Go conversions \<^verbatim>\<open>routev1.WildcardPolicyType(s)\<close> are the identity.
  A Go string's zero value is the empty string, a pointer's zero value is \<open>None\<close>.
\<close>

type_synonym error = string

record TLSConfig =
  Termination :: string
  Certificate :: string
  Key :: string
  CACertificate :: string
  DestinationCACertificate :: string
  InsecureEdgeTerminationPolicy :: string

record ObjectMeta =
  Name :: string
  Namespace :: string
  Labels :: "(string \<times> string) list"
  Annotations :: "(string \<times> string) list"

record RouteSpec =
  Host :: string
  Path :: string
  To :: string
  Port :: "string option"
  TLS :: "TLSConfig option"
  WildcardPolicy :: string

record Route =
  Meta :: ObjectMeta
  Spec :: RouteSpec

definition TLSTerminationPassthrough :: string where
  "TLSTerminationPassthrough = ''passthrough''"

text \<open>\<^verbatim>\<open>new(routev1.TLSConfig)\<close>: every field at its zero value.\<close>

definition new_TLSConfig :: TLSConfig where
  "new_TLSConfig =
     \<lparr>Termination = [], Certificate = [], Key = [], CACertificate = [],
      DestinationCACertificate = [], InsecureEdgeTerminationPolicy = []\<rparr>"

section \<open>Options, collaborators and effects of the command\<close>

datatype DryRunStrategy = DryRunNone | DryRunClient | DryRunServer

text \<open>
  The world \<^verbatim>\<open>Run\<close> acts on: the remote store, which changes only through
  \<^verbatim>\<open>Client.Routes(ns).Create\<close>, and the bytes written to the output stream \<^verbatim>\<open>Out\<close>, which
  grow only through \<^verbatim>\<open>Printer.PrintObj\<close>.
\<close>

record 'r world =
  cluster :: 'r
  out :: string

text \<open>
  Besides its result and the new world, the model of \<^verbatim>\<open>Run\<close> returns the calls it made to
  its collaborators, in order and with their arguments.
\<close>

datatype call =
    ResolveServiceNameCall string
  | UnsecuredRouteCall string string string string bool bool
  | CreateOrUpdateAnnotationCall bool Route
  | CreateCall string Route
  | PrintObjCall Route

text \<open>
  \<^verbatim>\<open>CreateRouteSubcommandOptions\<close> with the fields \<^verbatim>\<open>Run\<close> reads. An interface value is the
  one method used here: \<^verbatim>\<open>Client.Routes(ns).Create\<close> answers with the stored route or an
  error, and with the new remote state; \<^verbatim>\<open>Printer.PrintObj\<close> answers with the text it wrote
  to \<^verbatim>\<open>Out\<close> and an error or nil. \<^verbatim>\<open>Mapper\<close> and \<^verbatim>\<open>CoreClient\<close> are only passed on.
\<close>

record ('m, 'k, 'r) CreateRouteSubcommandOptions =
  Name :: string
  Namespace :: string
  EnforceNamespace :: bool
  CreateAnnotation :: bool
  DryRunStrategy :: DryRunStrategy
  Mapper :: 'm
  CoreClient :: 'k
  Client :: "string \<Rightarrow> Route \<Rightarrow> 'r \<Rightarrow> (error + Route) \<times> 'r"
  Printer :: "Route \<Rightarrow> string \<times> error option"

record ('m, 'k, 'r) CreatePassthroughRouteOptions =
  CreateRouteSubcommandOptions :: "('m, 'k, 'r) CreateRouteSubcommandOptions"
  Hostname :: string
  Port :: string
  InsecurePolicy :: string
  Service :: string
  WildcardPolicy :: string

text \<open>
  The three helpers \<^verbatim>\<open>Run\<close> calls that are defined in other packages are
  parameters: \<^verbatim>\<open>resolveServiceName\<close>, \<^verbatim>\<open>route.UnsecuredRoute\<close> and
  \<^verbatim>\<open>util.CreateOrUpdateAnnotation\<close>. The last one receives the route by pointer and returns
  only an error, so on success it answers with the route as it left it.
\<close>

record ('m, 'k) helpers =
  resolveServiceName :: "'m \<Rightarrow> string \<Rightarrow> error + string"
  UnsecuredRoute :: "'k \<Rightarrow> string \<Rightarrow> string \<Rightarrow> string \<Rightarrow> string \<Rightarrow> bool \<Rightarrow> bool \<Rightarrow> error + Route"
  CreateOrUpdateAnnotation :: "bool \<Rightarrow> Route \<Rightarrow> error + Route"

text \<open>
  \<^verbatim>\<open>route.Spec.TLS.Termination = ...\<close> assigns through the pointer \<^verbatim>\<open>route.Spec.TLS\<close>. In
  \<^verbatim>\<open>Run\<close> the pointer was set by \<^verbatim>\<open>new\<close> on the line before, so it is never nil there.
\<close>

definition assign_TLS :: "(TLSConfig \<Rightarrow> TLSConfig) \<Rightarrow> Route \<Rightarrow> Route" where
  "assign_TLS f route = route\<lparr>Spec := (Spec route)\<lparr>TLS := map_option f (TLS (Spec route))\<rparr>\<rparr>"

text \<open>
  \<^verbatim>\<open>Run\<close>, statement by statement. The result is the returned error (\<open>None\<close> for nil), the
  world afterwards and the calls made.
\<close>

definition Run ::
  "('m, 'k) helpers \<Rightarrow> ('m, 'k, 'r) CreatePassthroughRouteOptions \<Rightarrow> 'r world
     \<Rightarrow> error option \<times> 'r world \<times> call list" where
  "Run h opts w =
    (let sub = CreateRouteSubcommandOptions opts;
         tr = [ResolveServiceNameCall (Service opts)]
     in case resolveServiceName h (Mapper sub) (Service opts) of
       Inl err \<Rightarrow> (Some err, w, tr)
     | Inr serviceName \<Rightarrow>
        (let tr = tr @ [UnsecuredRouteCall (Namespace sub) (Name sub) serviceName (Port opts)
                          False (EnforceNamespace sub)]
         in case UnsecuredRoute h (CoreClient sub) (Namespace sub) (Name sub) serviceName
                   (Port opts) False (EnforceNamespace sub) of
           Inl err \<Rightarrow> (Some err, w, tr)
         | Inr route \<Rightarrow>
            (let route = (if length (WildcardPolicy opts) > 0
                          then route\<lparr>Spec := (Spec route)
                                 \<lparr>RouteSpec.WildcardPolicy := WildcardPolicy opts\<rparr>\<rparr>
                          else route);
                 route = route\<lparr>Spec := (Spec route)\<lparr>Host := Hostname opts\<rparr>\<rparr>;
                 route = route\<lparr>Spec := (Spec route)\<lparr>TLS := Some new_TLSConfig\<rparr>\<rparr>;
                 route = assign_TLS (\<lambda>t. t\<lparr>Termination := TLSTerminationPassthrough\<rparr>) route;
                 route = (if length (InsecurePolicy opts) > 0
                          then assign_TLS
                                 (\<lambda>t. t\<lparr>InsecureEdgeTerminationPolicy := InsecurePolicy opts\<rparr>)
                                 route
                          else route);
                 tr = tr @ [CreateOrUpdateAnnotationCall (CreateAnnotation sub) route]
             in case CreateOrUpdateAnnotation h (CreateAnnotation sub) route of
               Inl err \<Rightarrow> (Some err, w, tr)
             | Inr route \<Rightarrow>
                (if DryRunStrategy sub \<noteq> DryRunClient
                 then
                   (let tr = tr @ [CreateCall (Namespace sub) route]
                    in case Client sub (Namespace sub) route (cluster w) of
                      (Inl err, c) \<Rightarrow> (Some err, w\<lparr>cluster := c\<rparr>, tr)
                    | (Inr route, c) \<Rightarrow>
                       (let (bytes, res) = Printer sub route
                        in (res, w\<lparr>cluster := c, out := out w @ bytes\<rparr>,
                            tr @ [PrintObjCall route])))
                 else
                   (let (bytes, res) = Printer sub route
                    in (res, w\<lparr>out := out w @ bytes\<rparr>, tr @ [PrintObjCall route]))))))"

text \<open>The three components of what \<^verbatim>\<open>Run\<close> yields.\<close>

abbreviation Run_error where
  "Run_error h opts w \<equiv> fst (Run h opts w)"

abbreviation Run_world where
  "Run_world h opts w \<equiv> fst (snd (Run h opts w))"

abbreviation Run_calls where
  "Run_calls h opts w \<equiv> snd (snd (Run h opts w))"

text \<open>
  Shorthand for the five steps with the arguments \<^verbatim>\<open>Run\<close> gives them, and for the calls as
  they are recorded.
\<close>

abbreviation sub ::
  "('m, 'k, 'r) CreatePassthroughRouteOptions \<Rightarrow> ('m, 'k, 'r) CreateRouteSubcommandOptions"
  where "sub opts \<equiv> CreateRouteSubcommandOptions opts"

abbreviation resolve_step where
  "resolve_step h opts \<equiv> resolveServiceName h (Mapper (sub opts)) (Service opts)"

abbreviation construct_step where
  "construct_step h opts s \<equiv>
     UnsecuredRoute h (CoreClient (sub opts)) (Namespace (sub opts)) (Name (sub opts)) s
       (Port opts) False (EnforceNamespace (sub opts))"

abbreviation annotate_step where
  "annotate_step h opts r \<equiv> CreateOrUpdateAnnotation h (CreateAnnotation (sub opts)) r"

abbreviation create_step where
  "create_step opts r c \<equiv> Client (sub opts) (Namespace (sub opts)) r c"

abbreviation print_step where
  "print_step opts r \<equiv> Printer (sub opts) r"

abbreviation resolve_call where
  "resolve_call opts \<equiv> ResolveServiceNameCall (Service opts)"

abbreviation construct_call where
  "construct_call opts s \<equiv>
     UnsecuredRouteCall (Namespace (sub opts)) (Name (sub opts)) s (Port opts) False
       (EnforceNamespace (sub opts))"

abbreviation annotate_call where
  "annotate_call opts r \<equiv> CreateOrUpdateAnnotationCall (CreateAnnotation (sub opts)) r"

abbreviation create_call where
  "create_call opts r \<equiv> CreateCall (Namespace (sub opts)) r"

text \<open>The routes a sequence of calls handed to each collaborator.\<close>

fun annotated :: "call list \<Rightarrow> Route list" where
  "annotated [] = []"
| "annotated (CreateOrUpdateAnnotationCall b r # cs) = r # annotated cs"
| "annotated (c # cs) = annotated cs"

fun submitted :: "call list \<Rightarrow> Route list" where
  "submitted [] = []"
| "submitted (CreateCall ns r # cs) = r # submitted cs"
| "submitted (c # cs) = submitted cs"

fun printed :: "call list \<Rightarrow> Route list" where
  "printed [] = []"
| "printed (PrintObjCall r # cs) = r # printed cs"
| "printed (c # cs) = printed cs"

text \<open>
  The route the specification describes, in closed form: the route \<^verbatim>\<open>UnsecuredRoute\<close>
  returned with the host set to the \<^verbatim>\<open>--hostname\<close> value, a TLS configuration that holds
  the passthrough termination mode and the \<^verbatim>\<open>--insecure-policy\<close> value (empty when the flag
  was not given) and nothing else, and the wildcard policy set to the \<^verbatim>\<open>--wildcard-policy\<close>
  value when that is not empty.
\<close>

definition passthrough_route ::
  "('m, 'k, 'r) CreatePassthroughRouteOptions \<Rightarrow> Route \<Rightarrow> Route" where
  "passthrough_route opts r0 =
     r0\<lparr>Spec := (Spec r0)
       \<lparr>Host := Hostname opts,
        TLS := Some \<lparr>Termination = ''passthrough'', Certificate = [], Key = [],
                     CACertificate = [], DestinationCACertificate = [],
                     InsecureEdgeTerminationPolicy = InsecurePolicy opts\<rparr>,
        RouteSpec.WildcardPolicy :=
          (if WildcardPolicy opts = [] then RouteSpec.WildcardPolicy (Spec r0)
           else WildcardPolicy opts)\<rparr>\<rparr>"

text \<open>
  The contract of \<^verbatim>\<open>CreateOrUpdateAnnotation\<close> that statements about the submitted object
  rest on: it records the configuration in the object's metadata and leaves \<^verbatim>\<open>Spec\<close> alone.
\<close>

definition keeps_spec :: "('m, 'k) helpers \<Rightarrow> bool" where
  "keeps_spec h \<longleftrightarrow> (\<forall>b r r'. CreateOrUpdateAnnotation h b r = Inr r' \<longrightarrow> Spec r' = Spec r)"

subsection \<open>A concrete cluster to run the command against\<close>

text \<open>
  Collaborators that behave as the real ones do in the respects the command can see: the
  service name must not be empty, the service \<^verbatim>\<open>missing\<close> does not exist, the annotation is
  written into the metadata when asked for, the server refuses a second route of the same
  name and gives a route without a host a generated one, and the printer reports the name.
\<close>

definition demo_helpers :: "(unit, unit) helpers" where
  "demo_helpers =
     \<lparr>resolveServiceName =
        (\<lambda>m s. if s = [] then Inl ''you need to provide a service name via --service''
                else Inr s),
      UnsecuredRoute =
        (\<lambda>k ns n s p forcePort enforceNs.
           if s = ''missing'' then Inl ''services missing not found''
           else Inr \<lparr>Meta = \<lparr>ObjectMeta.Name = (if n = [] then s else n),
                               ObjectMeta.Namespace = (if enforceNs then ns else []),
                               Labels = [], Annotations = []\<rparr>,
                      Spec = \<lparr>Host = [], Path = [], To = s,
                               RouteSpec.Port = (if p = [] then None else Some p),
                               TLS = None, RouteSpec.WildcardPolicy = []\<rparr>\<rparr>),
      CreateOrUpdateAnnotation =
        (\<lambda>b r. if b
                then Inr (r\<lparr>Meta := (Meta r)
                            \<lparr>Annotations :=
                               [(''kubectl.kubernetes.io/last-applied-configuration'',
                                 ''route/'' @ ObjectMeta.Name (Meta r))]\<rparr>\<rparr>)
                else Inr r)\<rparr>"

definition demo_client :: "string \<Rightarrow> Route \<Rightarrow> Route list \<Rightarrow> (error + Route) \<times> Route list" where
  "demo_client ns r c =
     (if ObjectMeta.Name (Meta r) \<in> set (map (\<lambda>x. ObjectMeta.Name (Meta x)) c)
      then (Inl ''routes.route.openshift.io already exists'', c)
      else
        (let stored =
               r\<lparr>Spec := (Spec r)
                   \<lparr>Host := (if Host (Spec r) = []
                              then ObjectMeta.Name (Meta r) @ ''-'' @ ns @ ''.apps.example.com''
                              else Host (Spec r))\<rparr>\<rparr>
         in (Inr stored, c @ [stored])))"

definition demo_printer :: "Route \<Rightarrow> string \<times> error option" where
  "demo_printer r = (''route.route.openshift.io/'' @ ObjectMeta.Name (Meta r) @ '' created'', None)"

definition demo_options :: "(unit, unit, Route list) CreatePassthroughRouteOptions" where
  "demo_options =
     \<lparr>CreateRouteSubcommandOptions =
        \<lparr>Name = ''my-route'', Namespace = ''demo'', EnforceNamespace = True,
         CreateAnnotation = True, DryRunStrategy = DryRunNone, Mapper = (), CoreClient = (),
         Client = demo_client, Printer = demo_printer\<rparr>,
      Hostname = ''www.example.com'', Port = [], InsecurePolicy = [], Service = ''frontend'',
      WildcardPolicy = []\<rparr>"

definition demo_world :: "Route list world" where
  "demo_world = \<lparr>cluster = [], out = []\<rparr>"

text \<open>The route \<^verbatim>\<open>UnsecuredRoute\<close> answers with in the concrete cluster.\<close>

definition demo_unsecured :: Route where
  "demo_unsecured =
     \<lparr>Meta = \<lparr>ObjectMeta.Name = ''my-route'', ObjectMeta.Namespace = ''demo'', Labels = [], Annotations = []\<rparr>,
      Spec = \<lparr>Host = [], Path = [], To = ''frontend'', RouteSpec.Port = None, TLS = None,
               RouteSpec.WildcardPolicy = []\<rparr>\<rparr>"

text \<open>
  Ways for the steps to fail in the concrete cluster: an encoder that cannot encode, a printer
  that cannot write, a cluster where the route's name is taken; and the client-side dry run.
\<close>

definition demo_broken_encoder :: "(unit, unit) helpers" where
  "demo_broken_encoder =
     demo_helpers\<lparr>CreateOrUpdateAnnotation := (\<lambda>b r. Inl ''unable to encode the route'')\<rparr>"

definition demo_broken_printer ::
  "(unit, unit, Route list) CreatePassthroughRouteOptions
     \<Rightarrow> (unit, unit, Route list) CreatePassthroughRouteOptions" where
  "demo_broken_printer opts =
     opts\<lparr>CreateRouteSubcommandOptions :=
            (sub opts)\<lparr>Printer := (\<lambda>r. (''route'', Some ''unable to write the output''))\<rparr>\<rparr>"

definition demo_dry_run ::
  "(unit, unit, Route list) CreatePassthroughRouteOptions
     \<Rightarrow> (unit, unit, Route list) CreatePassthroughRouteOptions" where
  "demo_dry_run opts =
     opts\<lparr>CreateRouteSubcommandOptions := (sub opts)\<lparr>DryRunStrategy := DryRunClient\<rparr>\<rparr>"

definition demo_annotated :: Route where
  "demo_annotated =
     passthrough_route demo_options demo_unsecured
       \<lparr>Meta := (Meta demo_unsecured)
          \<lparr>Annotations := [(''kubectl.kubernetes.io/last-applied-configuration'',
                             ''route/my-route'')]\<rparr>\<rparr>"

definition demo_taken :: "Route list world" where
  "demo_taken = \<lparr>cluster = [demo_unsecured], out = []\<rparr>"

text \<open>A server that validates the wildcard policy of the routes it is asked to store.\<close>

definition demo_strict_client ::
  "string \<Rightarrow> Route \<Rightarrow> Route list \<Rightarrow> (error + Route) \<times> Route list" where
  "demo_strict_client ns r c =
     (if RouteSpec.WildcardPolicy (Spec r) \<in> {[], ''None'', ''Subdomain''}
      then demo_client ns r c
      else (Inl ''spec.wildcardPolicy: Invalid value'', c))"

definition demo_strict ::
  "(unit, unit, Route list) CreatePassthroughRouteOptions
     \<Rightarrow> (unit, unit, Route list) CreatePassthroughRouteOptions" where
  "demo_strict opts =
     opts\<lparr>CreateRouteSubcommandOptions := (sub opts)\<lparr>Client := demo_strict_client\<rparr>\<rparr>"

section \<open>Construction and execution of the command\<close>

text \<open>
  \<^verbatim>\<open>NewCmdCreatePassthroughRoute\<close> registers five string flags, marks \<^verbatim>\<open>service\<close> as
  required and lets three helpers add further flags. A command is its usage line, its short
  description and its flags; the help texts play no role here. The flags the three helpers
  add (\<^verbatim>\<open>AddValidateFlags\<close>, \<^verbatim>\<open>CreateRouteSubcommandOptions.AddFlags\<close>, \<^verbatim>\<open>AddDryRunFlag\<close>)
  are parameters. The options struct is fresh when the flags are registered, so every default
  value is the empty string. The usage texts are given without their inner double quotes.
\<close>

record Flag =
  flagName :: string
  defValue :: string
  usage :: string
  required :: bool

record Command =
  Use :: string
  Short :: string
  Flags :: "Flag list"

definition StringVar :: "string \<Rightarrow> string \<Rightarrow> string \<Rightarrow> Command \<Rightarrow> Command" where
  "StringVar name val use cmd =
     cmd\<lparr>Flags := Flags cmd @ [\<lparr>flagName = name, defValue = val, usage = use, required = False\<rparr>]\<rparr>"

text \<open>\<^verbatim>\<open>MarkFlagRequired\<close> annotates the flag of that name; the source ignores its error.\<close>

definition MarkFlagRequired :: "string \<Rightarrow> Command \<Rightarrow> Command" where
  "MarkFlagRequired name cmd =
     cmd\<lparr>Flags := map (\<lambda>f. if flagName f = name then f\<lparr>required := True\<rparr> else f) (Flags cmd)\<rparr>"

definition AddFlagSet :: "Flag list \<Rightarrow> Command \<Rightarrow> Command" where
  "AddFlagSet fs cmd = cmd\<lparr>Flags := Flags cmd @ fs\<rparr>"

definition NewCmdCreatePassthroughRoute :: "Flag list \<Rightarrow> Flag list \<Rightarrow> Flag list \<Rightarrow> Command" where
  "NewCmdCreatePassthroughRoute validateFlags subcommandFlags dryRunFlag =
    (let cmd = \<lparr>Use = ''passthrough [NAME] --service=SERVICE'',
                 Short = ''Create a route that uses passthrough TLS termination'',
                 Flags = []\<rparr>;
         cmd = StringVar ''hostname'' [] ''Set a hostname for the new route'' cmd;
         cmd = StringVar ''port'' []
                 ''Name of the service port or number of the container port the route will route traffic to''
                 cmd;
         cmd = StringVar ''insecure-policy'' [] ''Set an insecure policy for the new route'' cmd;
         cmd = StringVar ''service'' [] ''Name of the service that the new route is exposing'' cmd;
         cmd = MarkFlagRequired ''service'' cmd;
         cmd = StringVar ''wildcard-policy'' []
                 ''Sets the WilcardPolicy for the hostname, the default is None. valid values are None and Subdomain''
                 cmd;
         cmd = AddFlagSet validateFlags cmd;
         cmd = AddFlagSet subcommandFlags cmd;
         cmd = AddFlagSet dryRunFlag cmd
     in cmd)"

text \<open>
  Modelled from the spec: the required-flag validation of the command framework (the
  \<^verbatim>\<open>cobra\<close> library that executes the command), whose code is missing here. The
  specification lists \<^verbatim>\<open>--service\<close> as
  required and says that a missing \<^verbatim>\<open>--service\<close> flag fails validation before execution.
  Accordingly: the flags given on the command line are a list of names with values; a
  required flag that is not among them is an error, raised before the handler runs; the
  value of a flag is the one given, or else its default.
\<close>

definition validateRequiredFlags :: "Command \<Rightarrow> (string \<times> string) list \<Rightarrow> error option" where
  "validateRequiredFlags cmd given =
    (let missing = filter (\<lambda>n. n \<notin> set (map fst given))
                     (map flagName (filter required (Flags cmd)))
     in if missing = [] then None
        else Some (''required flag(s) '' @ concat (map (\<lambda>n. n @ '' '') missing) @ ''not set''))"

definition flagValue :: "Command \<Rightarrow> (string \<times> string) list \<Rightarrow> string \<Rightarrow> string" where
  "flagValue cmd given name =
    (case map_of given name of
       Some v \<Rightarrow> v
     | None \<Rightarrow> (case filter (\<lambda>f. flagName f = name) (Flags cmd) of
                  [] \<Rightarrow> [] | f # _ \<Rightarrow> defValue f))"

text \<open>
  \<^verbatim>\<open>Complete\<close> delegates to \<^verbatim>\<open>CreateRouteSubcommandOptions.Complete\<close>, which fills in the
  shared options in place from the command and its arguments, or fails. That method is a
  parameter (it closes over the factory).
\<close>

definition Complete ::
  "(('m, 'k, 'r) CreateRouteSubcommandOptions \<Rightarrow> Command \<Rightarrow> string list
      \<Rightarrow> error + ('m, 'k, 'r) CreateRouteSubcommandOptions)
     \<Rightarrow> ('m, 'k, 'r) CreatePassthroughRouteOptions \<Rightarrow> Command \<Rightarrow> string list
     \<Rightarrow> error + ('m, 'k, 'r) CreatePassthroughRouteOptions" where
  "Complete subComplete opts cmd args =
    (case subComplete (CreateRouteSubcommandOptions opts) cmd args of
       Inl err \<Rightarrow> Inl err
     | Inr completed \<Rightarrow> Inr (opts\<lparr>CreateRouteSubcommandOptions := completed\<rparr>))"

text \<open>
  The handler of the command, the \<^verbatim>\<open>Run\<close> field of the \<^verbatim>\<open>cobra.Command\<close>: \<^verbatim>\<open>Complete\<close>, then
  \<^verbatim>\<open>Run\<close>, each under \<^verbatim>\<open>CheckErr\<close>, which ends the process on an error. The stages the
  handler entered are recorded.
\<close>

datatype stage = CompleteStage | RunStage

definition handler ::
  "(('m, 'k, 'r) CreateRouteSubcommandOptions \<Rightarrow> Command \<Rightarrow> string list
      \<Rightarrow> error + ('m, 'k, 'r) CreateRouteSubcommandOptions)
     \<Rightarrow> ('m, 'k) helpers \<Rightarrow> ('m, 'k, 'r) CreatePassthroughRouteOptions \<Rightarrow> Command
     \<Rightarrow> string list \<Rightarrow> 'r world \<Rightarrow> error option \<times> 'r world \<times> stage list \<times> call list" where
  "handler subComplete h opts cmd args w =
    (case Complete subComplete opts cmd args of
       Inl err \<Rightarrow> (Some err, w, [CompleteStage], [])
     | Inr opts \<Rightarrow>
        (let (res, w, cs) = Run h opts w
         in (res, w, [CompleteStage, RunStage], cs)))"

text \<open>
  Modelled from the spec: executing the command. Validation of the required flags comes
  first; only when it passes are the flag values bound to the options and the handler run.
\<close>

definition execute ::
  "Command \<Rightarrow> (string \<times> string) list \<Rightarrow> string list
     \<Rightarrow> (('m, 'k, 'r) CreateRouteSubcommandOptions \<Rightarrow> Command \<Rightarrow> string list
          \<Rightarrow> error + ('m, 'k, 'r) CreateRouteSubcommandOptions)
     \<Rightarrow> ('m, 'k) helpers \<Rightarrow> ('m, 'k, 'r) CreateRouteSubcommandOptions \<Rightarrow> 'r world
     \<Rightarrow> error option \<times> 'r world \<times> stage list \<times> call list" where
  "execute cmd given args subComplete h sub0 w =
    (case validateRequiredFlags cmd given of
       Some err \<Rightarrow> (Some err, w, [], [])
     | None \<Rightarrow>
        handler subComplete h
          \<lparr>CreateRouteSubcommandOptions = sub0,
           Hostname = flagValue cmd given ''hostname'',
           Port = flagValue cmd given ''port'',
           InsecurePolicy = flagValue cmd given ''insecure-policy'',
           Service = flagValue cmd given ''service'',
           WildcardPolicy = flagValue cmd given ''wildcard-policy''\<rparr>
          cmd args w)"

section \<open>Startup configuration\<close>

text \<open>
  \<^verbatim>\<open>shimKubectlForOc\<close> assigns package-level variables of the toolkit. Function values are
  opaque (type \<open>'f\<close>), and so is the table of special verbs (type \<open>'v\<close>). What the function
  takes from other packages is a parameter: the error value, the
  image-reference function, \<^verbatim>\<open>AddSpecialVerb\<close> and the fourteen constructors that wrap the
  toolkit's current function.
\<close>

record Cluster =
  LocationOfOrigin :: string
  Server :: string
  InsecureSkipTLSVerify :: bool
  CertificateAuthority :: string

record GroupResource =
  Group :: string
  Resource :: string

record ('f, 'v) toolkit =
  ErrEmptyConfig :: error
  ClusterDefaults :: Cluster
  UseModifyConfigLock :: bool
  ParseDockerImageReferenceToStringFunc :: 'f
  specialVerbs :: 'v
  AttachablePodForObjectFn :: 'f
  CanBeExposedFn :: 'f
  HistoryViewerFn :: 'f
  LogsForObjectFn :: 'f
  MapBasedSelectorForObjectFn :: 'f
  ObjectPauserFn :: 'f
  ObjectResumerFn :: 'f
  PortsForObjectFn :: 'f
  ProtocolsForObjectFn :: 'f
  RollbackerFn :: 'f
  StatusViewerFn :: 'f
  UpdatePodSpecForObjectFn :: 'f
  GeneratorFn :: 'f
  DescriberFn :: 'f

record ('f, 'v) origin =
  genericclioptions_ErrEmptyConfig :: error
  clientcmd_ParseDockerImageReferenceToStringFunc :: 'f
  AddSpecialVerb :: "string \<Rightarrow> GroupResource \<Rightarrow> 'v \<Rightarrow> 'v"
  NewAttachablePodForObjectFn :: "'f \<Rightarrow> 'f"
  NewCanBeExposedFn :: "'f \<Rightarrow> 'f"
  NewHistoryViewerFn :: "'f \<Rightarrow> 'f"
  NewLogsForObjectFn :: "'f \<Rightarrow> 'f"
  NewMapBasedSelectorForObjectFn :: "'f \<Rightarrow> 'f"
  NewObjectPauserFn :: "'f \<Rightarrow> 'f"
  NewObjectResumerFn :: "'f \<Rightarrow> 'f"
  NewPortsForObjectFn :: "'f \<Rightarrow> 'f"
  NewProtocolsForObjectFn :: "'f \<Rightarrow> 'f"
  NewRollbackerFn :: "'f \<Rightarrow> 'f"
  NewStatusViewerFn :: "'f \<Rightarrow> 'f"
  NewUpdatePodSpecForObjectFn :: "'f \<Rightarrow> 'f"
  NewGeneratorsFn :: "'f \<Rightarrow> 'f"
  NewDescriberFn :: "'f \<Rightarrow> 'f"

text \<open>
  The process environment, with the names looked up so far. \<^verbatim>\<open>os.Getenv\<close> answers with the
  value of the variable, or with the empty string when the variable is not set.
\<close>

record process =
  environ :: "string \<rightharpoonup> string"
  lookups :: "string list"

definition Getenv :: "string \<Rightarrow> process \<Rightarrow> string \<times> process" where
  "Getenv key p =
     ((case environ p key of None \<Rightarrow> [] | Some v \<Rightarrow> v), p\<lparr>lookups := lookups p @ [key]\<rparr>)"

definition shimKubectlForOc ::
  "('f, 'v) origin \<Rightarrow> process \<Rightarrow> ('f, 'v) toolkit \<Rightarrow> ('f, 'v) toolkit \<times> process" where
  "shimKubectlForOc origin p k =
    (let k = k\<lparr>ErrEmptyConfig := genericclioptions_ErrEmptyConfig origin\<rparr>;
         (master, p) = Getenv ''KUBERNETES_MASTER'' p;
         k = k\<lparr>ClusterDefaults :=
                 \<lparr>LocationOfOrigin = [], Server = master, InsecureSkipTLSVerify = False,
                  CertificateAuthority = []\<rparr>\<rparr>;
         k = k\<lparr>ParseDockerImageReferenceToStringFunc :=
                 clientcmd_ParseDockerImageReferenceToStringFunc origin\<rparr>;
         k = k\<lparr>specialVerbs :=
                 AddSpecialVerb origin ''use''
                   \<lparr>Group = ''security.openshift.io'', Resource = ''securitycontextconstraints''\<rparr>
                   (specialVerbs k)\<rparr>;
         k = k\<lparr>UseModifyConfigLock := False\<rparr>;
         k = k\<lparr>AttachablePodForObjectFn :=
                 NewAttachablePodForObjectFn origin (AttachablePodForObjectFn k)\<rparr>;
         k = k\<lparr>CanBeExposedFn := NewCanBeExposedFn origin (CanBeExposedFn k)\<rparr>;
         k = k\<lparr>HistoryViewerFn := NewHistoryViewerFn origin (HistoryViewerFn k)\<rparr>;
         k = k\<lparr>LogsForObjectFn := NewLogsForObjectFn origin (LogsForObjectFn k)\<rparr>;
         k = k\<lparr>MapBasedSelectorForObjectFn :=
                 NewMapBasedSelectorForObjectFn origin (MapBasedSelectorForObjectFn k)\<rparr>;
         k = k\<lparr>ObjectPauserFn := NewObjectPauserFn origin (ObjectPauserFn k)\<rparr>;
         k = k\<lparr>ObjectResumerFn := NewObjectResumerFn origin (ObjectResumerFn k)\<rparr>;
         k = k\<lparr>PortsForObjectFn := NewPortsForObjectFn origin (PortsForObjectFn k)\<rparr>;
         k = k\<lparr>ProtocolsForObjectFn :=
                 NewProtocolsForObjectFn origin (ProtocolsForObjectFn k)\<rparr>;
         k = k\<lparr>RollbackerFn := NewRollbackerFn origin (RollbackerFn k)\<rparr>;
         k = k\<lparr>StatusViewerFn := NewStatusViewerFn origin (StatusViewerFn k)\<rparr>;
         k = k\<lparr>UpdatePodSpecForObjectFn :=
                 NewUpdatePodSpecForObjectFn origin (UpdatePodSpecForObjectFn k)\<rparr>;
         k = k\<lparr>GeneratorFn := NewGeneratorsFn origin (GeneratorFn k)\<rparr>;
         k = k\<lparr>DescriberFn := NewDescriberFn origin (DescriberFn k)\<rparr>
     in (k, p))"

text \<open>A toolkit with named functions, and wrappers that show what they wrap.\<close>

definition demo_toolkit :: "(string, (string \<times> GroupResource) list) toolkit" where
  "demo_toolkit =
     \<lparr>ErrEmptyConfig = ''no configuration has been provided'',
      ClusterDefaults =
        \<lparr>LocationOfOrigin = [], Server = ''http://localhost:8080'',
         InsecureSkipTLSVerify = False, CertificateAuthority = []\<rparr>,
      UseModifyConfigLock = True,
      ParseDockerImageReferenceToStringFunc = ''kubectl.parse'',
      specialVerbs = [],
      AttachablePodForObjectFn = ''attachablePodForObject'',
      CanBeExposedFn = ''canBeExposed'',
      HistoryViewerFn = ''historyViewer'',
      LogsForObjectFn = ''logsForObject'',
      MapBasedSelectorForObjectFn = ''mapBasedSelectorForObject'',
      ObjectPauserFn = ''defaultObjectPauser'',
      ObjectResumerFn = ''defaultObjectResumer'',
      PortsForObjectFn = ''portsForObject'',
      ProtocolsForObjectFn = ''protocolsForObject'',
      RollbackerFn = ''rollbacker'',
      StatusViewerFn = ''statusViewer'',
      UpdatePodSpecForObjectFn = ''updatePodSpecForObject'',
      GeneratorFn = ''defaultGenerators'',
      DescriberFn = ''describerFn''\<rparr>"

definition demo_origin :: "(string, (string \<times> GroupResource) list) origin" where
  "demo_origin =
     \<lparr>genericclioptions_ErrEmptyConfig = ''Missing or incomplete configuration info'',
      clientcmd_ParseDockerImageReferenceToStringFunc = ''origin.parse'',
      AddSpecialVerb = (\<lambda>verb gr table. table @ [(verb, gr)]),
      NewAttachablePodForObjectFn = (\<lambda>f. ''origin('' @ f @ '')''),
      NewCanBeExposedFn = (\<lambda>f. ''origin('' @ f @ '')''),
      NewHistoryViewerFn = (\<lambda>f. ''origin('' @ f @ '')''),
      NewLogsForObjectFn = (\<lambda>f. ''origin('' @ f @ '')''),
      NewMapBasedSelectorForObjectFn = (\<lambda>f. ''origin('' @ f @ '')''),
      NewObjectPauserFn = (\<lambda>f. ''origin('' @ f @ '')''),
      NewObjectResumerFn = (\<lambda>f. ''origin('' @ f @ '')''),
      NewPortsForObjectFn = (\<lambda>f. ''origin('' @ f @ '')''),
      NewProtocolsForObjectFn = (\<lambda>f. ''origin('' @ f @ '')''),
      NewRollbackerFn = (\<lambda>f. ''origin('' @ f @ '')''),
      NewStatusViewerFn = (\<lambda>f. ''origin('' @ f @ '')''),
      NewUpdatePodSpecForObjectFn = (\<lambda>f. ''origin('' @ f @ '')''),
      NewGeneratorsFn = (\<lambda>f. ''origin('' @ f @ '')''),
      NewDescriberFn = (\<lambda>f. ''origin('' @ f @ '')'')\<rparr>"

definition demo_process :: process where
  "demo_process =
     \<lparr>environ = [''KUBERNETES_MASTER'' \<mapsto> ''https://api.example.com:6443'',
                 ''HOME'' \<mapsto> ''/home/dev''],
      lookups = []\<rparr>"

definition demo_process_elsewhere :: process where
  "demo_process_elsewhere =
     \<lparr>environ = [''KUBERNETES_MASTER'' \<mapsto> ''https://api.example.com:6443'',
                 ''KUBECONFIG'' \<mapsto> ''/tmp/config''],
      lookups = []\<rparr>"

text \<open>The shared options as \<^verbatim>\<open>Complete\<close> leaves them in the concrete cluster.\<close>

definition demo_complete ::
  "(unit, unit, Route list) CreateRouteSubcommandOptions \<Rightarrow> Command \<Rightarrow> string list
     \<Rightarrow> error + (unit, unit, Route list) CreateRouteSubcommandOptions" where
  "demo_complete sub0 cmd args =
    (case args of
       [] \<Rightarrow> Inr (sub0\<lparr>Name := [], Namespace := ''demo''\<rparr>)
     | [name] \<Rightarrow> Inr (sub0\<lparr>Name := name, Namespace := ''demo''\<rparr>)
     | _ \<Rightarrow> Inl ''multiple names provided'')"

section \<open>How \<^verbatim>\<open>Run\<close> proceeds\<close>

text \<open>
  The assignments between route construction and annotation build the route of the closed
  form, so \<^verbatim>\<open>Run\<close> is a chain of five steps around that route.
\<close>

lemma built_route_eq:
  "(let route = (if length (WildcardPolicy opts) > 0
                          then route\<lparr>Spec := (Spec route)
                                 \<lparr>RouteSpec.WildcardPolicy := WildcardPolicy opts\<rparr>\<rparr>
                          else route);
                 route = route\<lparr>Spec := (Spec route)\<lparr>Host := Hostname opts\<rparr>\<rparr>;
                 route = route\<lparr>Spec := (Spec route)\<lparr>TLS := Some new_TLSConfig\<rparr>\<rparr>;
                 route = assign_TLS (\<lambda>t. t\<lparr>Termination := TLSTerminationPassthrough\<rparr>) route;
                 route = (if length (InsecurePolicy opts) > 0
                          then assign_TLS
                                 (\<lambda>t. t\<lparr>InsecureEdgeTerminationPolicy := InsecurePolicy opts\<rparr>)
                                 route
                          else route) in route) = passthrough_route opts route"
  by (cases route) (simp add: Let_def assign_TLS_def new_TLSConfig_def passthrough_route_def TLSTerminationPassthrough_def)

lemma Run_unfold:
  "Run h opts w =
    (let sub = CreateRouteSubcommandOptions opts;
         tr = [ResolveServiceNameCall (Service opts)]
     in case resolveServiceName h (Mapper sub) (Service opts) of
       Inl err \<Rightarrow> (Some err, w, tr)
     | Inr serviceName \<Rightarrow>
        (let tr = tr @ [UnsecuredRouteCall (Namespace sub) (Name sub) serviceName (Port opts)
                          False (EnforceNamespace sub)]
         in case UnsecuredRoute h (CoreClient sub) (Namespace sub) (Name sub) serviceName
                   (Port opts) False (EnforceNamespace sub) of
           Inl err \<Rightarrow> (Some err, w, tr)
         | Inr r0 \<Rightarrow>
            (let route = passthrough_route opts r0;
                 tr = tr @ [CreateOrUpdateAnnotationCall (CreateAnnotation sub) route]
             in case CreateOrUpdateAnnotation h (CreateAnnotation sub) route of
               Inl err \<Rightarrow> (Some err, w, tr)
             | Inr route \<Rightarrow>
                (if DryRunStrategy sub \<noteq> DryRunClient
                 then
                   (let tr = tr @ [CreateCall (Namespace sub) route]
                    in case Client sub (Namespace sub) route (cluster w) of
                      (Inl err, c) \<Rightarrow> (Some err, w\<lparr>cluster := c\<rparr>, tr)
                    | (Inr route, c) \<Rightarrow>
                       (let (text, res) = Printer sub route
                        in (res, w\<lparr>cluster := c, out := out w @ text\<rparr>,
                            tr @ [PrintObjCall route])))
                 else
                   (let (text, res) = Printer sub route
                    in (res, w\<lparr>out := out w @ text\<rparr>, tr @ [PrintObjCall route]))))))"
  by (simp only: Run_def Let_def built_route_eq [unfolded Let_def])

lemma Run_resolve_fails:
  assumes "resolve_step h opts = Inl e"
  shows "Run h opts w = (Some e, w, [resolve_call opts])"
  using assms by (simp add: Run_unfold Let_def)

lemma Run_construct_fails:
  assumes "resolve_step h opts = Inr s"
    and "construct_step h opts s = Inl e"
  shows "Run h opts w =
    (Some e, w,
     [resolve_call opts,
      construct_call opts s])"
  using assms by (simp add: Run_unfold Let_def)

lemma Run_annotate_fails:
  assumes "resolve_step h opts = Inr s"
    and "construct_step h opts s = Inr r0"
    and "annotate_step h opts (passthrough_route opts r0) = Inl e"
  shows "Run h opts w =
    (Some e, w,
     [resolve_call opts,
      construct_call opts s,
      annotate_call opts (passthrough_route opts r0)])"
  using assms by (simp add: Run_unfold Let_def)

lemma Run_create_fails:
  assumes "resolve_step h opts = Inr s"
    and "construct_step h opts s = Inr r0"
    and "annotate_step h opts (passthrough_route opts r0) = Inr r1"
    and "DryRunStrategy (sub opts) \<noteq> DryRunClient"
    and "create_step opts r1 (cluster w) = (Inl e, c)"
  shows "Run h opts w =
    (Some e, w\<lparr>cluster := c\<rparr>,
     [resolve_call opts,
      construct_call opts s,
      annotate_call opts (passthrough_route opts r0),
      create_call opts r1])"
  using assms by (simp add: Run_unfold Let_def)

lemma Run_created:
  assumes "resolve_step h opts = Inr s"
    and "construct_step h opts s = Inr r0"
    and "annotate_step h opts (passthrough_route opts r0) = Inr r1"
    and "DryRunStrategy (sub opts) \<noteq> DryRunClient"
    and "create_step opts r1 (cluster w) = (Inr r2, c)"
    and "print_step opts r2 = (bytes, res)"
  shows "Run h opts w =
    (res, w\<lparr>cluster := c, out := out w @ bytes\<rparr>,
     [resolve_call opts,
      construct_call opts s,
      annotate_call opts (passthrough_route opts r0),
      create_call opts r1, PrintObjCall r2])"
  using assms by (simp add: Run_unfold Let_def)

lemma Run_dry_run:
  assumes "resolve_step h opts = Inr s"
    and "construct_step h opts s = Inr r0"
    and "annotate_step h opts (passthrough_route opts r0) = Inr r1"
    and "DryRunStrategy (sub opts) = DryRunClient"
    and "print_step opts r1 = (bytes, res)"
  shows "Run h opts w =
    (res, w\<lparr>out := out w @ bytes\<rparr>,
     [resolve_call opts,
      construct_call opts s,
      annotate_call opts (passthrough_route opts r0),
      PrintObjCall r1])"
  using assms by (simp add: Run_unfold Let_def)

lemma Run_paths:
  fixes h :: "('m, 'k) helpers" and opts :: "('m, 'k, 'r) CreatePassthroughRouteOptions"
    and w :: "'r world"
  obtains
    (resolve_fails) e where
      "resolve_step h opts = Inl e"
  | (construct_fails) s e where
      "resolve_step h opts = Inr s"
      "construct_step h opts s = Inl e"
  | (annotate_fails) s r0 e where
      "resolve_step h opts = Inr s"
      "construct_step h opts s = Inr r0"
      "annotate_step h opts (passthrough_route opts r0) = Inl e"
  | (create_fails) s r0 r1 e c where
      "resolve_step h opts = Inr s"
      "construct_step h opts s = Inr r0"
      "annotate_step h opts (passthrough_route opts r0) = Inr r1"
      "DryRunStrategy (sub opts) \<noteq> DryRunClient"
      "create_step opts r1 (cluster w) = (Inl e, c)"
  | (created) s r0 r1 r2 c bytes res where
      "resolve_step h opts = Inr s"
      "construct_step h opts s = Inr r0"
      "annotate_step h opts (passthrough_route opts r0) = Inr r1"
      "DryRunStrategy (sub opts) \<noteq> DryRunClient"
      "create_step opts r1 (cluster w) = (Inr r2, c)"
      "print_step opts r2 = (bytes, res)"
  | (dry_run) s r0 r1 bytes res where
      "resolve_step h opts = Inr s"
      "construct_step h opts s = Inr r0"
      "annotate_step h opts (passthrough_route opts r0) = Inr r1"
      "DryRunStrategy (sub opts) = DryRunClient"
      "print_step opts r1 = (bytes, res)"
proof (cases "resolve_step h opts")
  case (Inl e)
  then show ?thesis by (rule resolve_fails)
next
  case s: (Inr s)
  show ?thesis
  proof (cases "construct_step h opts s")
    case (Inl e)
    with s show ?thesis by (rule construct_fails)
  next
    case r0: (Inr r0)
    show ?thesis
    proof (cases "annotate_step h opts (passthrough_route opts r0)")
      case (Inl e)
      with s r0 show ?thesis by (rule annotate_fails)
    next
      case r1: (Inr r1)
      show ?thesis
      proof (cases "DryRunStrategy (sub opts) = DryRunClient")
        case True
        obtain bytes res where "print_step opts r1 = (bytes, res)" by (cases "print_step opts r1")
        with s r0 r1 True show ?thesis by (rule dry_run)
      next
        case False
        obtain a c where ac: "create_step opts r1 (cluster w) = (a, c)"
          by (cases "create_step opts r1 (cluster w)")
        show ?thesis
        proof (cases a)
          case (Inl e)
          with s r0 r1 False ac show ?thesis by (auto intro: create_fails)
        next
          case (Inr r2)
          obtain bytes res where "print_step opts r2 = (bytes, res)" by (cases "print_step opts r2")
          with Inr s r0 r1 False ac show ?thesis by (auto intro: created)
        qed
      qed
    qed
  qed
qed



lemma passthrough_route_simps:
  "Host (Spec (passthrough_route opts r0)) = Hostname opts"
  "TLS (Spec (passthrough_route opts r0)) =
     Some \<lparr>Termination = ''passthrough'', Certificate = [], Key = [], CACertificate = [],
            DestinationCACertificate = [], InsecureEdgeTerminationPolicy = InsecurePolicy opts\<rparr>"
  "RouteSpec.WildcardPolicy (Spec (passthrough_route opts r0)) =
     (if WildcardPolicy opts = [] then RouteSpec.WildcardPolicy (Spec r0)
      else WildcardPolicy opts)"
  by (simp_all add: passthrough_route_def)

lemma keeps_specD:
  "keeps_spec h \<Longrightarrow> CreateOrUpdateAnnotation h b r = Inr r' \<Longrightarrow> Spec r' = Spec r"
  by (simp add: keeps_spec_def)

text \<open>The invocation in the concrete cluster: every step succeeds.\<close>

lemma keeps_spec_host:
  assumes "keeps_spec h"
    and "CreateOrUpdateAnnotation h b (passthrough_route opts r0) = Inr r1"
  shows "Host (Spec r1) = Hostname opts"
  using keeps_specD [OF assms] by (simp add: passthrough_route_simps)

lemmas demo_defs =
  demo_helpers_def demo_options_def demo_unsecured_def demo_world_def demo_client_def
  demo_printer_def demo_broken_encoder_def demo_broken_printer_def demo_dry_run_def
  demo_annotated_def demo_taken_def demo_strict_client_def demo_strict_def
  passthrough_route_def Let_def


lemma demo_resolve: "resolve_step demo_helpers demo_options = Inr ''frontend''"
  by (simp add: demo_helpers_def demo_options_def)

lemma demo_construct: "construct_step demo_helpers demo_options ''frontend'' = Inr demo_unsecured"
  by (simp add: demo_helpers_def demo_options_def demo_unsecured_def)

lemma demo_keeps_spec: "keeps_spec demo_helpers"
  by (auto simp: keeps_spec_def demo_helpers_def split: if_splits)

lemma demo_calls:
  "Run_calls demo_helpers demo_options demo_world =
     [ResolveServiceNameCall ''frontend'',
      UnsecuredRouteCall ''demo'' ''my-route'' ''frontend'' [] False True,
      CreateOrUpdateAnnotationCall True (passthrough_route demo_options demo_unsecured),
      CreateCall ''demo''
        (passthrough_route demo_options demo_unsecured
           \<lparr>Meta := (Meta demo_unsecured)
              \<lparr>Annotations := [(''kubectl.kubernetes.io/last-applied-configuration'',
                                 ''route/my-route'')]\<rparr>\<rparr>),
      PrintObjCall
        (passthrough_route demo_options demo_unsecured
           \<lparr>Meta := (Meta demo_unsecured)
              \<lparr>Annotations := [(''kubectl.kubernetes.io/last-applied-configuration'',
                                 ''route/my-route'')]\<rparr>\<rparr>)]"
  by (simp add: Run_unfold Let_def demo_helpers_def demo_options_def demo_unsecured_def demo_world_def
     demo_client_def demo_printer_def passthrough_route_def)

lemma demo_annotate:
  "annotate_step demo_helpers demo_options (passthrough_route demo_options demo_unsecured) =
     Inr demo_annotated"
  by (simp add: demo_defs)

lemma demo_redirect_calls:
  "Run_calls demo_helpers (demo_options\<lparr>InsecurePolicy := ''Redirect''\<rparr>) demo_world =
     [ResolveServiceNameCall ''frontend'',
      UnsecuredRouteCall ''demo'' ''my-route'' ''frontend'' [] False True,
      CreateOrUpdateAnnotationCall True
        (passthrough_route (demo_options\<lparr>InsecurePolicy := ''Redirect''\<rparr>) demo_unsecured),
      CreateCall ''demo''
        (passthrough_route (demo_options\<lparr>InsecurePolicy := ''Redirect''\<rparr>) demo_unsecured
           \<lparr>Meta := (Meta demo_unsecured)
              \<lparr>Annotations := [(''kubectl.kubernetes.io/last-applied-configuration'',
                                 ''route/my-route'')]\<rparr>\<rparr>),
      PrintObjCall
        (passthrough_route (demo_options\<lparr>InsecurePolicy := ''Redirect''\<rparr>) demo_unsecured
           \<lparr>Meta := (Meta demo_unsecured)
              \<lparr>Annotations := [(''kubectl.kubernetes.io/last-applied-configuration'',
                                 ''route/my-route'')]\<rparr>\<rparr>)]"
  by (simp add: Run_unfold demo_defs)

lemma demo_dry_run_result:
  "Run demo_helpers (demo_dry_run demo_options) demo_world =
     (None, \<lparr>cluster = [], out = ''route.route.openshift.io/my-route created''\<rparr>,
      [ResolveServiceNameCall ''frontend'',
       UnsecuredRouteCall ''demo'' ''my-route'' ''frontend'' [] False True,
       CreateOrUpdateAnnotationCall True (passthrough_route demo_options demo_unsecured),
       PrintObjCall demo_annotated])"
  by (simp add: Run_unfold demo_defs)

text \<open>Under client-side dry run no path of \<^verbatim>\<open>Run\<close> reaches the create call.\<close>

lemma Run_dry_run_no_create:
  assumes "DryRunStrategy (sub opts) = DryRunClient"
  shows "submitted (Run_calls h opts w) = []" and "cluster (Run_world h opts w) = cluster w"
proof -
  have "submitted (Run_calls h opts w) = [] \<and> cluster (Run_world h opts w) = cluster w"
  proof (cases rule: Run_paths [where h = h and opts = opts and w = w])
    case (resolve_fails e)
    then show ?thesis by (simp add: Run_resolve_fails)
  next
    case (construct_fails s e)
    then show ?thesis by (simp add: Run_construct_fails)
  next
    case (annotate_fails s r0 e)
    then show ?thesis by (simp add: Run_annotate_fails)
  next
    case (create_fails s r0 r1 e c)
    with assms show ?thesis by simp
  next
    case (created s r0 r1 r2 c bytes res)
    with assms show ?thesis by simp
  next
    case (dry_run s r0 r1 bytes res)
    then show ?thesis by (simp add: Run_dry_run)
  qed
  then show "submitted (Run_calls h opts w) = []" and "cluster (Run_world h opts w) = cluster w"
    by simp_all
qed

section \<open>How the command is executed\<close>

text \<open>
  The constructed command has the \<^verbatim>\<open>service\<close> flag, marked as required, whatever flags the
  helpers add; and a required flag that was not given fails the validation.
\<close>

lemma service_flag_required:
  "\<lparr>flagName = ''service'', defValue = [],
     usage = ''Name of the service that the new route is exposing'', required = True\<rparr>
     \<in> set (Flags (NewCmdCreatePassthroughRoute vf sf df))"
  by (simp add: NewCmdCreatePassthroughRoute_def StringVar_def MarkFlagRequired_def
      AddFlagSet_def Let_def)

lemma validateRequiredFlags_missing:
  assumes "f \<in> set (Flags cmd)" and "required f" and "flagName f \<notin> set (map fst given)"
  shows "validateRequiredFlags cmd given \<noteq> None"
proof -
  from assms have "flagName f \<in> set (filter (\<lambda>n. n \<notin> set (map fst given))
                     (map flagName (filter required (Flags cmd))))"
    by auto
  then have "filter (\<lambda>n. n \<notin> set (map fst given))
               (map flagName (filter required (Flags cmd))) \<noteq> []"
    by (metis empty_iff list.set(1))
  then show ?thesis
    by (simp add: validateRequiredFlags_def Let_def)
qed

text \<open>With the flag given, the handler runs both stages in the concrete cluster.\<close>

lemma demo_execute:
  "execute (NewCmdCreatePassthroughRoute [] [] []) [(''service'', ''frontend'')] [''my-route'']
     demo_complete demo_helpers (sub demo_options) demo_world =
     (None,
      \<lparr>cluster =
         [demo_annotated\<lparr>Spec := (Spec demo_annotated)
            \<lparr>Host := ''my-route-demo.apps.example.com''\<rparr>\<rparr>],
       out = ''route.route.openshift.io/my-route created''\<rparr>,
      [CompleteStage, RunStage],
      [ResolveServiceNameCall ''frontend'',
       UnsecuredRouteCall ''demo'' ''my-route'' ''frontend'' [] False True,
       CreateOrUpdateAnnotationCall True
         (passthrough_route (demo_options\<lparr>Hostname := []\<rparr>) demo_unsecured),
       CreateCall ''demo'' (demo_annotated\<lparr>Spec := (Spec demo_annotated)\<lparr>Host := []\<rparr>\<rparr>),
       PrintObjCall (demo_annotated\<lparr>Spec := (Spec demo_annotated)
            \<lparr>Host := ''my-route-demo.apps.example.com''\<rparr>\<rparr>)])"
  by (simp add: execute_def validateRequiredFlags_def flagValue_def handler_def Complete_def
      NewCmdCreatePassthroughRoute_def StringVar_def MarkFlagRequired_def AddFlagSet_def
      demo_complete_def Run_unfold demo_defs)

section \<open>Properties of the command's execution\<close>

text \<open>
  C2. When the \<^verbatim>\<open>--service\<close> flag is not among the flags given, executing the constructed
  command fails in flag validation: an error is returned, the handler is not entered
  (neither \<^verbatim>\<open>Complete\<close> nor \<^verbatim>\<open>Run\<close> is invoked), no collaborator is called and the world is
  as it was. The flag is marked as required where the command is constructed.
\<close>

theorem missing_service_rejected:
  assumes "''service'' \<notin> set (map fst given)"
  shows "\<exists>err. execute (NewCmdCreatePassthroughRoute vf sf df) given args subComplete h sub0 w =
           (Some err, w, [], [])"
proof -
  have "validateRequiredFlags (NewCmdCreatePassthroughRoute vf sf df) given \<noteq> None"
    using assms
    by (intro validateRequiredFlags_missing [OF service_flag_required]) simp_all
  then show ?thesis
    by (auto simp: execute_def)
qed

theorem missing_service_rejected_witness:
  "''service'' \<notin> set (map fst [(''hostname'', ''www.example.com'')]) \<and>
   execute (NewCmdCreatePassthroughRoute [] [] []) [(''hostname'', ''www.example.com'')]
     [''my-route''] demo_complete demo_helpers (sub demo_options) demo_world =
     (Some ''required flag(s) service not set'', demo_world, [], [])"
  using missing_service_rejected [of "[(''hostname'', ''www.example.com'')]" "[]" "[]" "[]"
      "[''my-route'']" demo_complete demo_helpers "sub demo_options" demo_world]
  by (simp add: execute_def validateRequiredFlags_def NewCmdCreatePassthroughRoute_def
      StringVar_def MarkFlagRequired_def AddFlagSet_def Let_def)

section \<open>Properties of \<^verbatim>\<open>Run\<close>\<close>

text \<open>
  C1. Whenever service-name resolution and route construction succeed, \<^verbatim>\<open>Run\<close> hands
  exactly one route to the annotation step, and that route has a TLS configuration whose
  termination mode is the passthrough constant. When annotation leaves the \<^verbatim>\<open>Spec\<close>
  alone, every route submitted to the remote \<^verbatim>\<open>Create\<close> call has it as well.
\<close>

theorem Run_termination_passthrough:
  assumes "resolve_step h opts = Inr s" and "construct_step h opts s = Inr r0"
  shows "(\<exists>r. annotated (Run_calls h opts w) = [r] \<and>
              map_option Termination (TLS (Spec r)) = Some TLSTerminationPassthrough) \<and>
         (keeps_spec h \<longrightarrow>
            (\<forall>r \<in> set (submitted (Run_calls h opts w)).
               map_option Termination (TLS (Spec r)) = Some TLSTerminationPassthrough))"
proof (cases rule: Run_paths [where h = h and opts = opts and w = w])
  case (resolve_fails e)
  with assms show ?thesis by simp
next
  case (construct_fails s' e)
  with assms show ?thesis by simp
next
  case (annotate_fails s' r0' e)
  then show ?thesis
    by (simp add: Run_annotate_fails passthrough_route_simps TLSTerminationPassthrough_def)
next
  case (create_fails s' r0' r1 e c)
  then show ?thesis
    by (auto simp: Run_create_fails passthrough_route_simps TLSTerminationPassthrough_def
        dest: keeps_specD)
next
  case (created s' r0' r1 r2 c bytes res)
  then show ?thesis
    by (auto simp: Run_created passthrough_route_simps TLSTerminationPassthrough_def
        dest: keeps_specD)
next
  case (dry_run s' r0' r1 bytes res)
  then show ?thesis
    by (simp add: Run_dry_run passthrough_route_simps TLSTerminationPassthrough_def)
qed

theorem Run_termination_passthrough_witness:
  "resolve_step demo_helpers demo_options = Inr ''frontend'' \<and>
   construct_step demo_helpers demo_options ''frontend'' = Inr demo_unsecured \<and>
   keeps_spec demo_helpers \<and>
   annotated (Run_calls demo_helpers demo_options demo_world) =
     [passthrough_route demo_options demo_unsecured] \<and>
   map_option Termination (TLS (Spec (passthrough_route demo_options demo_unsecured))) =
     Some ''passthrough'' \<and>
   length (submitted (Run_calls demo_helpers demo_options demo_world)) = 1 \<and>
   map_option Termination
     (TLS (Spec (hd (submitted (Run_calls demo_helpers demo_options demo_world))))) =
     Some ''passthrough''"
  using Run_termination_passthrough [OF demo_resolve demo_construct, of demo_world]
    demo_resolve demo_construct demo_keeps_spec
  by (simp add: demo_calls TLSTerminationPassthrough_def)

text \<open>
  C3. An error from any of the five steps (service-name resolution, route construction,
  annotation, the remote create call, printing) is what \<^verbatim>\<open>Run\<close> returns, as it is; the
  steps before it succeeded and no step after it is called: the recorded calls end with
  the failing one. Printing is reached along two paths, after the create call and under
  client-side dry run.
\<close>

theorem Run_first_error:
  "(resolve_step h opts = Inl e \<longrightarrow>
      Run h opts w = (Some e, w, [resolve_call opts])) \<and>
   (resolve_step h opts = Inr s \<and> construct_step h opts s = Inl e \<longrightarrow>
      Run h opts w = (Some e, w, [resolve_call opts, construct_call opts s])) \<and>
   (resolve_step h opts = Inr s \<and> construct_step h opts s = Inr base \<and>
    annotate_step h opts (passthrough_route opts base) = Inl e \<longrightarrow>
      Run h opts w =
        (Some e, w,
         [resolve_call opts, construct_call opts s,
          annotate_call opts (passthrough_route opts base)])) \<and>
   (resolve_step h opts = Inr s \<and> construct_step h opts s = Inr base \<and>
    annotate_step h opts (passthrough_route opts base) = Inr noted \<and>
    DryRunStrategy (sub opts) \<noteq> DryRunClient \<and>
    create_step opts noted (cluster w) = (Inl e, c) \<longrightarrow>
      Run h opts w =
        (Some e, w\<lparr>cluster := c\<rparr>,
         [resolve_call opts, construct_call opts s,
          annotate_call opts (passthrough_route opts base), create_call opts noted])) \<and>
   (resolve_step h opts = Inr s \<and> construct_step h opts s = Inr base \<and>
    annotate_step h opts (passthrough_route opts base) = Inr noted \<and>
    DryRunStrategy (sub opts) \<noteq> DryRunClient \<and>
    create_step opts noted (cluster w) = (Inr stored, c) \<and>
    print_step opts stored = (bytes, Some e) \<longrightarrow>
      Run h opts w =
        (Some e, w\<lparr>cluster := c, out := out w @ bytes\<rparr>,
         [resolve_call opts, construct_call opts s,
          annotate_call opts (passthrough_route opts base), create_call opts noted,
          PrintObjCall stored])) \<and>
   (resolve_step h opts = Inr s \<and> construct_step h opts s = Inr base \<and>
    annotate_step h opts (passthrough_route opts base) = Inr noted \<and>
    DryRunStrategy (sub opts) = DryRunClient \<and>
    print_step opts noted = (bytes, Some e) \<longrightarrow>
      Run h opts w =
        (Some e, w\<lparr>out := out w @ bytes\<rparr>,
         [resolve_call opts, construct_call opts s,
          annotate_call opts (passthrough_route opts base), PrintObjCall noted]))"
  by (intro conjI impI; (elim conjE)?)
    (rule Run_resolve_fails Run_construct_fails Run_annotate_fails Run_create_fails
       Run_created Run_dry_run; assumption)+

theorem Run_first_error_witness:
  "Run demo_helpers (demo_options\<lparr>Service := []\<rparr>) demo_world =
     (Some ''you need to provide a service name via --service'', demo_world,
      [ResolveServiceNameCall []]) \<and>
   Run demo_helpers (demo_options\<lparr>Service := ''missing''\<rparr>) demo_world =
     (Some ''services missing not found'', demo_world,
      [ResolveServiceNameCall ''missing'',
       UnsecuredRouteCall ''demo'' ''my-route'' ''missing'' [] False True]) \<and>
   Run demo_broken_encoder demo_options demo_world =
     (Some ''unable to encode the route'', demo_world,
      [ResolveServiceNameCall ''frontend'',
       UnsecuredRouteCall ''demo'' ''my-route'' ''frontend'' [] False True,
       CreateOrUpdateAnnotationCall True (passthrough_route demo_options demo_unsecured)]) \<and>
   Run demo_helpers demo_options demo_taken =
     (Some ''routes.route.openshift.io already exists'', demo_taken,
      [ResolveServiceNameCall ''frontend'',
       UnsecuredRouteCall ''demo'' ''my-route'' ''frontend'' [] False True,
       CreateOrUpdateAnnotationCall True (passthrough_route demo_options demo_unsecured),
       CreateCall ''demo'' demo_annotated]) \<and>
   Run_error demo_helpers (demo_broken_printer demo_options) demo_world =
     Some ''unable to write the output'' \<and>
   Run_error demo_helpers (demo_broken_printer (demo_dry_run demo_options)) demo_world =
     Some ''unable to write the output''"
proof -
  have "resolve_step demo_helpers (demo_options\<lparr>Service := []\<rparr>) =
          Inl ''you need to provide a service name via --service''"
    by (simp add: demo_defs)
  with Run_first_error [where h = demo_helpers and opts = "demo_options\<lparr>Service := []\<rparr>"
      and w = demo_world and e = "''you need to provide a service name via --service''"]
  have 1: "Run demo_helpers (demo_options\<lparr>Service := []\<rparr>) demo_world =
     (Some ''you need to provide a service name via --service'', demo_world,
      [ResolveServiceNameCall []])"
    by simp
  have "resolve_step demo_helpers (demo_options\<lparr>Service := ''missing''\<rparr>) = Inr ''missing''"
    "construct_step demo_helpers (demo_options\<lparr>Service := ''missing''\<rparr>) ''missing'' =
       Inl ''services missing not found''"
    by (simp_all add: demo_defs)
  with Run_first_error [where h = demo_helpers
      and opts = "demo_options\<lparr>Service := ''missing''\<rparr>" and w = demo_world
      and s = "''missing''" and e = "''services missing not found''"]
  have 2: "Run demo_helpers (demo_options\<lparr>Service := ''missing''\<rparr>) demo_world =
     (Some ''services missing not found'', demo_world,
      [ResolveServiceNameCall ''missing'',
       UnsecuredRouteCall ''demo'' ''my-route'' ''missing'' [] False True])"
    by (simp add: demo_options_def)
  have "resolve_step demo_broken_encoder demo_options = Inr ''frontend''"
    "construct_step demo_broken_encoder demo_options ''frontend'' = Inr demo_unsecured"
    "annotate_step demo_broken_encoder demo_options
       (passthrough_route demo_options demo_unsecured) = Inl ''unable to encode the route''"
    by (simp_all add: demo_defs)
  with Run_first_error [where h = demo_broken_encoder and opts = demo_options
      and w = demo_world and s = "''frontend''" and base = demo_unsecured
      and e = "''unable to encode the route''"]
  have 3: "Run demo_broken_encoder demo_options demo_world =
     (Some ''unable to encode the route'', demo_world,
      [ResolveServiceNameCall ''frontend'',
       UnsecuredRouteCall ''demo'' ''my-route'' ''frontend'' [] False True,
       CreateOrUpdateAnnotationCall True (passthrough_route demo_options demo_unsecured)])"
    by (simp add: demo_options_def)
  have "resolve_step demo_helpers demo_options = Inr ''frontend''"
    "construct_step demo_helpers demo_options ''frontend'' = Inr demo_unsecured"
    "annotate_step demo_helpers demo_options (passthrough_route demo_options demo_unsecured) =
       Inr demo_annotated"
    "DryRunStrategy (sub demo_options) \<noteq> DryRunClient"
    "create_step demo_options demo_annotated (cluster demo_taken) =
       (Inl ''routes.route.openshift.io already exists'', cluster demo_taken)"
    by (simp_all add: demo_defs)
  with Run_first_error [where h = demo_helpers and opts = demo_options
      and w = demo_taken and s = "''frontend''" and base = demo_unsecured
      and noted = demo_annotated and c = "cluster demo_taken"
      and e = "''routes.route.openshift.io already exists''"]
  have 4: "Run demo_helpers demo_options demo_taken =
     (Some ''routes.route.openshift.io already exists'', demo_taken,
      [ResolveServiceNameCall ''frontend'',
       UnsecuredRouteCall ''demo'' ''my-route'' ''frontend'' [] False True,
       CreateOrUpdateAnnotationCall True (passthrough_route demo_options demo_unsecured),
       CreateCall ''demo'' demo_annotated])"
    by (simp add: demo_options_def)
  have "resolve_step demo_helpers (demo_broken_printer demo_options) = Inr ''frontend''"
    "construct_step demo_helpers (demo_broken_printer demo_options) ''frontend'' =
       Inr demo_unsecured"
    "annotate_step demo_helpers (demo_broken_printer demo_options)
       (passthrough_route (demo_broken_printer demo_options) demo_unsecured) =
       Inr demo_annotated"
    "DryRunStrategy (sub (demo_broken_printer demo_options)) \<noteq> DryRunClient"
    "create_step (demo_broken_printer demo_options) demo_annotated (cluster demo_world) =
       (Inr demo_annotated, [demo_annotated])"
    "print_step (demo_broken_printer demo_options) demo_annotated =
       (''route'', Some ''unable to write the output'')"
    by (simp_all add: demo_defs)
  with Run_first_error [where h = demo_helpers and opts = "demo_broken_printer demo_options"
      and w = demo_world and s = "''frontend''" and base = demo_unsecured
      and noted = demo_annotated and stored = demo_annotated and c = "[demo_annotated]"
      and bytes = "''route''" and e = "''unable to write the output''"]
  have 5: "Run_error demo_helpers (demo_broken_printer demo_options) demo_world =
     Some ''unable to write the output''"
    by simp
  have "resolve_step demo_helpers (demo_broken_printer (demo_dry_run demo_options)) =
          Inr ''frontend''"
    "construct_step demo_helpers (demo_broken_printer (demo_dry_run demo_options)) ''frontend'' =
       Inr demo_unsecured"
    "annotate_step demo_helpers (demo_broken_printer (demo_dry_run demo_options))
       (passthrough_route (demo_broken_printer (demo_dry_run demo_options)) demo_unsecured) =
       Inr demo_annotated"
    "DryRunStrategy (sub (demo_broken_printer (demo_dry_run demo_options))) = DryRunClient"
    "print_step (demo_broken_printer (demo_dry_run demo_options)) demo_annotated =
       (''route'', Some ''unable to write the output'')"
    by (simp_all add: demo_defs)
  with Run_first_error [where h = demo_helpers
      and opts = "demo_broken_printer (demo_dry_run demo_options)"
      and w = demo_world and s = "''frontend''" and base = demo_unsecured
      and noted = demo_annotated and bytes = "''route''"
      and e = "''unable to write the output''"]
  have 6: "Run_error demo_helpers (demo_broken_printer (demo_dry_run demo_options)) demo_world =
     Some ''unable to write the output''"
    by simp
  from 1 2 3 4 5 6 show ?thesis by blast
qed

text \<open>
  C4, as stated, at a concrete input: the service does not exist, route construction fails,
  and no create call is issued although the dry-run strategy is not the client-side one.
\<close>

theorem Run_create_iff_counterexample:
  "DryRunStrategy (sub (demo_options\<lparr>Service := ''missing''\<rparr>)) \<noteq> DryRunClient \<and>
   Run_error demo_helpers (demo_options\<lparr>Service := ''missing''\<rparr>) demo_world =
     Some ''services missing not found'' \<and>
   submitted (Run_calls demo_helpers (demo_options\<lparr>Service := ''missing''\<rparr>) demo_world) = []"
  by (simp add: Run_unfold demo_defs)

text \<open>
  C4, amended. Under client-side dry run no create call is issued and the remote state is
  unchanged, in every invocation. In every invocation whose service-name resolution, route
  construction and annotation succeed, the create call is issued, with the annotated route,
  if and only if the dry-run strategy is not client-side dry run; under client-side dry run
  the annotated route is handed to the printer, and when the create call succeeds the
  server's response is. In both cases the printer's text is appended to the output
  stream and the printer's error, if any, is the result.
\<close>

theorem Run_create_unless_dry_run:
  "(DryRunStrategy (sub opts) = DryRunClient \<longrightarrow>
      submitted (Run_calls h opts w) = [] \<and> cluster (Run_world h opts w) = cluster w) \<and>
   (resolve_step h opts = Inr s \<and> construct_step h opts s = Inr base \<and>
    annotate_step h opts (passthrough_route opts base) = Inr noted \<longrightarrow>
      (submitted (Run_calls h opts w) = [noted]) = (DryRunStrategy (sub opts) \<noteq> DryRunClient) \<and>
      (DryRunStrategy (sub opts) = DryRunClient \<longrightarrow>
         printed (Run_calls h opts w) = [noted] \<and>
         Run_world h opts w = w\<lparr>out := out w @ fst (print_step opts noted)\<rparr> \<and>
         Run_error h opts w = snd (print_step opts noted)) \<and>
      (DryRunStrategy (sub opts) \<noteq> DryRunClient \<and>
       create_step opts noted (cluster w) = (Inr stored, c) \<longrightarrow>
         printed (Run_calls h opts w) = [stored] \<and>
         Run_world h opts w = w\<lparr>cluster := c, out := out w @ fst (print_step opts stored)\<rparr> \<and>
         Run_error h opts w = snd (print_step opts stored)))"
proof (intro conjI impI; (elim conjE)?)
  assume "DryRunStrategy (sub opts) = DryRunClient"
  then show "submitted (Run_calls h opts w) = []" "cluster (Run_world h opts w) = cluster w"
    by (rule Run_dry_run_no_create)+
next
  assume a: "resolve_step h opts = Inr s" "construct_step h opts s = Inr base"
    "annotate_step h opts (passthrough_route opts base) = Inr noted"
  show "(submitted (Run_calls h opts w) = [noted]) = (DryRunStrategy (sub opts) \<noteq> DryRunClient)"
  proof (cases "DryRunStrategy (sub opts) = DryRunClient")
    case True
    then show ?thesis by (simp add: Run_dry_run_no_create)
  next
    case False
    obtain x c' where x: "create_step opts noted (cluster w) = (x, c')"
      by (cases "create_step opts noted (cluster w)")
    show ?thesis
    proof (cases x)
      case (Inl e)
      with a False x show ?thesis by (simp add: Run_create_fails)
    next
      case (Inr r)
      obtain b res where "print_step opts r = (b, res)"
        by (cases "print_step opts r")
      with a False x Inr show ?thesis by (simp add: Run_created)
    qed
  qed
  {
    assume d: "DryRunStrategy (sub opts) = DryRunClient"
    obtain b res where p: "print_step opts noted = (b, res)"
      by (cases "print_step opts noted")
    from a d p show "printed (Run_calls h opts w) = [noted]"
      "Run_world h opts w = w\<lparr>out := out w @ fst (print_step opts noted)\<rparr>"
      "Run_error h opts w = snd (print_step opts noted)"
      by (simp_all add: Run_dry_run)
  }
  {
    assume d: "DryRunStrategy (sub opts) \<noteq> DryRunClient"
      and x: "create_step opts noted (cluster w) = (Inr stored, c)"
    obtain b res where p: "print_step opts stored = (b, res)"
      by (cases "print_step opts stored")
    from a d x p show "printed (Run_calls h opts w) = [stored]"
      "Run_world h opts w = w\<lparr>cluster := c, out := out w @ fst (print_step opts stored)\<rparr>"
      "Run_error h opts w = snd (print_step opts stored)"
      by (simp_all add: Run_created)
  }
qed

theorem Run_create_unless_dry_run_witness:
  "DryRunStrategy (sub (demo_dry_run demo_options)) = DryRunClient \<and>
   submitted (Run_calls demo_helpers (demo_dry_run demo_options) demo_world) = [] \<and>
   cluster (Run_world demo_helpers (demo_dry_run demo_options) demo_world) = [] \<and>
   printed (Run_calls demo_helpers (demo_dry_run demo_options) demo_world) = [demo_annotated] \<and>
   out (Run_world demo_helpers (demo_dry_run demo_options) demo_world) =
     ''route.route.openshift.io/my-route created'' \<and>
   DryRunStrategy (sub demo_options) \<noteq> DryRunClient \<and>
   submitted (Run_calls demo_helpers demo_options demo_world) = [demo_annotated] \<and>
   printed (Run_calls demo_helpers demo_options demo_world) = [demo_annotated] \<and>
   Run_world demo_helpers demo_options demo_world =
     \<lparr>cluster = [demo_annotated], out = ''route.route.openshift.io/my-route created''\<rparr> \<and>
   Run_error demo_helpers demo_options demo_world = None"
proof -
  have dry: "DryRunStrategy (sub (demo_dry_run demo_options)) = DryRunClient"
    "resolve_step demo_helpers (demo_dry_run demo_options) = Inr ''frontend''"
    "construct_step demo_helpers (demo_dry_run demo_options) ''frontend'' = Inr demo_unsecured"
    "annotate_step demo_helpers (demo_dry_run demo_options)
       (passthrough_route (demo_dry_run demo_options) demo_unsecured) = Inr demo_annotated"
    "print_step (demo_dry_run demo_options) demo_annotated =
       (''route.route.openshift.io/my-route created'', None)"
    by (simp_all add: demo_defs)
  with Run_create_unless_dry_run [where h = demo_helpers and opts = "demo_dry_run demo_options"
      and w = demo_world and s = "''frontend''" and base = demo_unsecured
      and noted = demo_annotated]
  have 1: "submitted (Run_calls demo_helpers (demo_dry_run demo_options) demo_world) = []"
    "cluster (Run_world demo_helpers (demo_dry_run demo_options) demo_world) = []"
    "printed (Run_calls demo_helpers (demo_dry_run demo_options) demo_world) = [demo_annotated]"
    "out (Run_world demo_helpers (demo_dry_run demo_options) demo_world) =
       ''route.route.openshift.io/my-route created''"
    by (simp_all add: demo_world_def)
  have wet: "DryRunStrategy (sub demo_options) \<noteq> DryRunClient"
    "create_step demo_options demo_annotated (cluster demo_world) =
       (Inr demo_annotated, [demo_annotated])"
    "print_step demo_options demo_annotated =
       (''route.route.openshift.io/my-route created'', None)"
    by (simp_all add: demo_defs)
  with Run_create_unless_dry_run [where h = demo_helpers and opts = demo_options
      and w = demo_world and s = "''frontend''" and base = demo_unsecured
      and noted = demo_annotated and stored = demo_annotated and c = "[demo_annotated]"]
    demo_resolve demo_construct demo_annotate
  have 2: "submitted (Run_calls demo_helpers demo_options demo_world) = [demo_annotated]"
    "printed (Run_calls demo_helpers demo_options demo_world) = [demo_annotated]"
    "Run_world demo_helpers demo_options demo_world =
       \<lparr>cluster = [demo_annotated], out = ''route.route.openshift.io/my-route created''\<rparr>"
    "Run_error demo_helpers demo_options demo_world = None"
    by (simp_all add: demo_world_def)
  from dry(1) wet(1) 1 2 show ?thesis by blast
qed

text \<open>
  C5. When the \<^verbatim>\<open>WildcardPolicy\<close> option is empty, \<^verbatim>\<open>Run\<close> does not assign
  \<^verbatim>\<open>Spec.WildcardPolicy\<close>: the route handed to the annotation step carries the value
  \<^verbatim>\<open>UnsecuredRoute\<close> returned, which is the zero value whenever \<^verbatim>\<open>UnsecuredRoute\<close> left the
  field unset; so does every submitted route when annotation leaves the \<^verbatim>\<open>Spec\<close> alone.
\<close>

theorem Run_wildcard_policy_left:
  assumes "WildcardPolicy opts = []"
    and "resolve_step h opts = Inr s" and "construct_step h opts s = Inr base"
  shows "(\<exists>r. annotated (Run_calls h opts w) = [r] \<and>
              RouteSpec.WildcardPolicy (Spec r) = RouteSpec.WildcardPolicy (Spec base)) \<and>
         (keeps_spec h \<longrightarrow>
            (\<forall>r \<in> set (submitted (Run_calls h opts w)).
               RouteSpec.WildcardPolicy (Spec r) = RouteSpec.WildcardPolicy (Spec base)))"
proof (cases rule: Run_paths [where h = h and opts = opts and w = w])
  case (resolve_fails e)
  with assms show ?thesis by simp
next
  case (construct_fails s' e)
  with assms show ?thesis by simp
next
  case (annotate_fails s' r0 e)
  with assms show ?thesis
    by (simp add: Run_annotate_fails passthrough_route_simps)
next
  case (create_fails s' r0 r1 e c)
  with assms show ?thesis
    by (auto simp: Run_create_fails passthrough_route_simps dest: keeps_specD)
next
  case (created s' r0 r1 r2 c bytes res)
  with assms show ?thesis
    by (auto simp: Run_created passthrough_route_simps dest: keeps_specD)
next
  case (dry_run s' r0 r1 bytes res)
  with assms show ?thesis
    by (simp add: Run_dry_run passthrough_route_simps)
qed

theorem Run_wildcard_policy_left_witness:
  "WildcardPolicy demo_options = [] \<and>
   resolve_step demo_helpers demo_options = Inr ''frontend'' \<and>
   construct_step demo_helpers demo_options ''frontend'' = Inr demo_unsecured \<and>
   RouteSpec.WildcardPolicy (Spec demo_unsecured) = [] \<and>
   keeps_spec demo_helpers \<and>
   length (annotated (Run_calls demo_helpers demo_options demo_world)) = 1 \<and>
   RouteSpec.WildcardPolicy
     (Spec (hd (annotated (Run_calls demo_helpers demo_options demo_world)))) = [] \<and>
   length (submitted (Run_calls demo_helpers demo_options demo_world)) = 1 \<and>
   RouteSpec.WildcardPolicy
     (Spec (hd (submitted (Run_calls demo_helpers demo_options demo_world)))) = []"
proof -
  have 0: "WildcardPolicy demo_options = []"
    by (simp add: demo_options_def)
  have z: "RouteSpec.WildcardPolicy (Spec demo_unsecured) = []"
    by (simp add: demo_unsecured_def)
  from Run_wildcard_policy_left [OF 0 demo_resolve demo_construct, of demo_world]
    0 z demo_resolve demo_construct demo_keeps_spec
  show ?thesis
    by (simp add: demo_calls passthrough_route_simps)
qed

text \<open>
  C6, as stated, at a concrete input: with an empty \<^verbatim>\<open>--hostname\<close> value and no dry run the
  server gives the stored route a generated host, and the printed object, which is the
  server's response, has a host that differs from the flag's value.
\<close>

theorem Run_printed_host_counterexample:
  "Hostname (demo_options\<lparr>Hostname := []\<rparr>) = [] \<and>
   length (printed (Run_calls demo_helpers (demo_options\<lparr>Hostname := []\<rparr>) demo_world)) = 1 \<and>
   Host (Spec (hd (printed (Run_calls demo_helpers (demo_options\<lparr>Hostname := []\<rparr>)
     demo_world)))) = ''my-route-demo.apps.example.com'' \<and>
   Host (Spec (hd (printed (Run_calls demo_helpers (demo_options\<lparr>Hostname := []\<rparr>)
     demo_world)))) \<noteq> Hostname (demo_options\<lparr>Hostname := []\<rparr>)"
  by (simp add: Run_unfold demo_defs)

text \<open>
  C6, amended. Whenever service-name resolution and route construction succeed, \<^verbatim>\<open>Run\<close>
  hands exactly one route to the annotation step and its \<^verbatim>\<open>Spec.Host\<close> equals the
  \<^verbatim>\<open>Hostname\<close> option, whatever that string is. When annotation succeeds, the annotated route
  is the one submitted to the create call (unless the dry run is client-side) and the one
  printed under client-side dry run, and its host is the option's value when annotation
  leaves the \<^verbatim>\<open>Spec\<close> alone. When the create call succeeds, the printed route is the
  server's response.
\<close>

theorem Run_host:
  "(\<forall>r \<in> set (annotated (Run_calls h opts w)). Host (Spec r) = Hostname opts) \<and>
   (keeps_spec h \<longrightarrow>
      (\<forall>r \<in> set (submitted (Run_calls h opts w)). Host (Spec r) = Hostname opts) \<and>
      (DryRunStrategy (sub opts) = DryRunClient \<longrightarrow>
         (\<forall>r \<in> set (printed (Run_calls h opts w)). Host (Spec r) = Hostname opts))) \<and>
   (resolve_step h opts = Inr s \<and> construct_step h opts s = Inr base \<longrightarrow>
      (\<exists>r. annotated (Run_calls h opts w) = [r] \<and> Host (Spec r) = Hostname opts \<and>
         (\<forall>noted. annotate_step h opts r = Inr noted \<longrightarrow>
            (keeps_spec h \<longrightarrow> Host (Spec noted) = Hostname opts) \<and>
            (DryRunStrategy (sub opts) = DryRunClient \<longrightarrow>
               submitted (Run_calls h opts w) = [] \<and> printed (Run_calls h opts w) = [noted]) \<and>
            (DryRunStrategy (sub opts) \<noteq> DryRunClient \<longrightarrow>
               submitted (Run_calls h opts w) = [noted] \<and>
               (\<forall>stored c. create_step opts noted (cluster w) = (Inr stored, c) \<longrightarrow>
                  printed (Run_calls h opts w) = [stored])))))"
proof (cases rule: Run_paths [where h = h and opts = opts and w = w])
  case (resolve_fails e)
  then show ?thesis by (simp add: Run_resolve_fails)
next
  case (construct_fails s' e)
  then show ?thesis by (auto simp: Run_construct_fails)
next
  case (annotate_fails s' r0 e)
  then show ?thesis by (auto simp: Run_annotate_fails passthrough_route_simps)
next
  case (create_fails s' r0 r1 e c)
  then show ?thesis
    by (auto simp: Run_create_fails passthrough_route_simps dest: keeps_specD keeps_spec_host)
next
  case (created s' r0 r1 r2 c bytes res)
  then show ?thesis
    by (auto simp: Run_created passthrough_route_simps dest: keeps_specD keeps_spec_host)
next
  case (dry_run s' r0 r1 bytes res)
  then show ?thesis
    by (auto simp: Run_dry_run passthrough_route_simps dest: keeps_specD keeps_spec_host)
qed

theorem Run_host_witness:
  "keeps_spec demo_helpers \<and>
   resolve_step demo_helpers (demo_dry_run demo_options) = Inr ''frontend'' \<and>
   construct_step demo_helpers (demo_dry_run demo_options) ''frontend'' = Inr demo_unsecured \<and>
   DryRunStrategy (sub (demo_dry_run demo_options)) = DryRunClient \<and>
   annotated (Run_calls demo_helpers (demo_dry_run demo_options) demo_world) =
     [passthrough_route demo_options demo_unsecured] \<and>
   Host (Spec (passthrough_route demo_options demo_unsecured)) = ''www.example.com'' \<and>
   submitted (Run_calls demo_helpers (demo_dry_run demo_options) demo_world) = [] \<and>
   printed (Run_calls demo_helpers (demo_dry_run demo_options) demo_world) = [demo_annotated] \<and>
   Host (Spec demo_annotated) = ''www.example.com'' \<and>
   DryRunStrategy (sub demo_options) \<noteq> DryRunClient \<and>
   submitted (Run_calls demo_helpers demo_options demo_world) = [demo_annotated] \<and>
   create_step demo_options demo_annotated (cluster demo_world) =
     (Inr demo_annotated, [demo_annotated]) \<and>
   printed (Run_calls demo_helpers demo_options demo_world) = [demo_annotated]"
proof -
  have dry: "resolve_step demo_helpers (demo_dry_run demo_options) = Inr ''frontend''"
    "construct_step demo_helpers (demo_dry_run demo_options) ''frontend'' = Inr demo_unsecured"
    "DryRunStrategy (sub (demo_dry_run demo_options)) = DryRunClient"
    "Hostname (demo_dry_run demo_options) = ''www.example.com''"
    "annotate_step demo_helpers (demo_dry_run demo_options)
       (passthrough_route demo_options demo_unsecured) = Inr demo_annotated"
    by (simp_all add: demo_defs)
  have wet: "DryRunStrategy (sub demo_options) \<noteq> DryRunClient"
    "Hostname demo_options = ''www.example.com''"
    "create_step demo_options demo_annotated (cluster demo_world) =
       (Inr demo_annotated, [demo_annotated])"
    by (simp_all add: demo_defs)
  have a: "annotated (Run_calls demo_helpers (demo_dry_run demo_options) demo_world) =
       [passthrough_route demo_options demo_unsecured]"
    "annotated (Run_calls demo_helpers demo_options demo_world) =
       [passthrough_route demo_options demo_unsecured]"
    by (simp_all add: demo_dry_run_result demo_calls)
  from Run_host [where h = demo_helpers and opts = "demo_dry_run demo_options"
      and w = demo_world and s = "''frontend''" and base = demo_unsecured]
    dry a demo_keeps_spec
  have 1: "Host (Spec (passthrough_route demo_options demo_unsecured)) = ''www.example.com''"
    "submitted (Run_calls demo_helpers (demo_dry_run demo_options) demo_world) = []"
    "printed (Run_calls demo_helpers (demo_dry_run demo_options) demo_world) = [demo_annotated]"
    "Host (Spec demo_annotated) = ''www.example.com''"
    by simp_all
  from Run_host [where h = demo_helpers and opts = demo_options
      and w = demo_world and s = "''frontend''" and base = demo_unsecured]
    wet a demo_resolve demo_construct demo_annotate demo_keeps_spec
  have 2: "submitted (Run_calls demo_helpers demo_options demo_world) = [demo_annotated]"
    "printed (Run_calls demo_helpers demo_options demo_world) = [demo_annotated]"
    by simp_all
  from dry(1-3) wet(1,3) a(1) 1 2 demo_keeps_spec show ?thesis by blast
qed

text \<open>
  C8, as stated, at a concrete input: a server that validates the wildcard policy refuses
  the value \<^verbatim>\<open>Everything\<close> and \<^verbatim>\<open>Run\<close> returns the server's error, while with the value
  \<^verbatim>\<open>Subdomain\<close> and everything else the same it returns nil. So \<^verbatim>\<open>Run\<close> does return an
  error on account of the value.
\<close>

theorem Run_policy_error_counterexample:
  "Run_error demo_helpers (demo_strict (demo_options\<lparr>WildcardPolicy := ''Everything''\<rparr>))
     demo_world = Some ''spec.wildcardPolicy: Invalid value'' \<and>
   Run_error demo_helpers (demo_strict (demo_options\<lparr>WildcardPolicy := ''Subdomain''\<rparr>))
     demo_world = None"
  by (simp add: Run_unfold demo_defs)

text \<open>
  C8, amended. \<^verbatim>\<open>Run\<close> does not validate the two policy options itself. Whenever
  service-name resolution and route construction succeed, it hands exactly one route to the
  annotation step; a non-empty \<^verbatim>\<open>WildcardPolicy\<close> option is that route's
  \<^verbatim>\<open>Spec.WildcardPolicy\<close> and a non-empty \<^verbatim>\<open>InsecurePolicy\<close> option is its
  \<^verbatim>\<open>Spec.TLS.InsecureEdgeTerminationPolicy\<close>, for any string. From there on the result of
  \<^verbatim>\<open>Run\<close> is what the collaborators answer: the error of annotation, else the error of the
  create call (unless the dry run is client-side), else whatever the printer returns for
  the route it is given. \<^verbatim>\<open>Run\<close> adds no error of its own.
\<close>

theorem Run_policies_verbatim:
  "resolve_step h opts = Inr s \<and> construct_step h opts s = Inr base \<longrightarrow>
     (\<exists>r. annotated (Run_calls h opts w) = [r] \<and>
        (WildcardPolicy opts \<noteq> [] \<longrightarrow> RouteSpec.WildcardPolicy (Spec r) = WildcardPolicy opts) \<and>
        (InsecurePolicy opts \<noteq> [] \<longrightarrow>
           map_option InsecureEdgeTerminationPolicy (TLS (Spec r)) = Some (InsecurePolicy opts)) \<and>
        (\<forall>e. annotate_step h opts r = Inl e \<longrightarrow> Run_error h opts w = Some e) \<and>
        (\<forall>noted. annotate_step h opts r = Inr noted \<longrightarrow>
           (DryRunStrategy (sub opts) = DryRunClient \<longrightarrow>
              Run_error h opts w = snd (print_step opts noted)) \<and>
           (DryRunStrategy (sub opts) \<noteq> DryRunClient \<longrightarrow>
              (\<forall>e c. create_step opts noted (cluster w) = (Inl e, c) \<longrightarrow>
                 Run_error h opts w = Some e) \<and>
              (\<forall>stored c. create_step opts noted (cluster w) = (Inr stored, c) \<longrightarrow>
                 Run_error h opts w = snd (print_step opts stored)))))"
proof (cases rule: Run_paths [where h = h and opts = opts and w = w])
  case (resolve_fails e)
  then show ?thesis by simp
next
  case (construct_fails s' e)
  then show ?thesis by auto
next
  case (annotate_fails s' r0 e)
  then show ?thesis by (auto simp: Run_annotate_fails passthrough_route_simps)
next
  case (create_fails s' r0 r1 e c)
  then show ?thesis by (auto simp: Run_create_fails passthrough_route_simps)
next
  case (created s' r0 r1 r2 c bytes res)
  then show ?thesis by (auto simp: Run_created passthrough_route_simps)
next
  case (dry_run s' r0 r1 bytes res)
  then show ?thesis by (auto simp: Run_dry_run passthrough_route_simps)
qed

theorem Run_policies_verbatim_witness:
  "resolve_step demo_helpers
     (demo_options\<lparr>InsecurePolicy := ''Sometimes'', WildcardPolicy := ''Everything''\<rparr>) =
     Inr ''frontend'' \<and>
   construct_step demo_helpers
     (demo_options\<lparr>InsecurePolicy := ''Sometimes'', WildcardPolicy := ''Everything''\<rparr>)
     ''frontend'' = Inr demo_unsecured \<and>
   length (annotated (Run_calls demo_helpers
     (demo_options\<lparr>InsecurePolicy := ''Sometimes'', WildcardPolicy := ''Everything''\<rparr>)
     demo_world)) = 1 \<and>
   RouteSpec.WildcardPolicy (Spec (hd (annotated (Run_calls demo_helpers
     (demo_options\<lparr>InsecurePolicy := ''Sometimes'', WildcardPolicy := ''Everything''\<rparr>)
     demo_world)))) = ''Everything'' \<and>
   map_option InsecureEdgeTerminationPolicy (TLS (Spec (hd (annotated (Run_calls demo_helpers
     (demo_options\<lparr>InsecurePolicy := ''Sometimes'', WildcardPolicy := ''Everything''\<rparr>)
     demo_world))))) = Some ''Sometimes'' \<and>
   Run_error demo_helpers
     (demo_options\<lparr>InsecurePolicy := ''Sometimes'', WildcardPolicy := ''Everything''\<rparr>)
     demo_world = None \<and>
   RouteSpec.WildcardPolicy (Spec (hd (annotated (Run_calls demo_helpers
     (demo_strict (demo_options\<lparr>WildcardPolicy := ''Everything''\<rparr>)) demo_world)))) =
     ''Everything'' \<and>
   Run_error demo_helpers (demo_strict (demo_options\<lparr>WildcardPolicy := ''Everything''\<rparr>))
     demo_world = Some ''spec.wildcardPolicy: Invalid value''"
proof -
  have h: "resolve_step demo_helpers
       (demo_options\<lparr>InsecurePolicy := ''Sometimes'', WildcardPolicy := ''Everything''\<rparr>) =
       Inr ''frontend''"
    "construct_step demo_helpers
       (demo_options\<lparr>InsecurePolicy := ''Sometimes'', WildcardPolicy := ''Everything''\<rparr>)
       ''frontend'' = Inr demo_unsecured"
    "resolve_step demo_helpers (demo_strict (demo_options\<lparr>WildcardPolicy := ''Everything''\<rparr>)) =
       Inr ''frontend''"
    "construct_step demo_helpers (demo_strict (demo_options\<lparr>WildcardPolicy := ''Everything''\<rparr>))
       ''frontend'' = Inr demo_unsecured"
    by (simp_all add: demo_defs)
  from Run_policies_verbatim [where h = demo_helpers
      and opts = "demo_options\<lparr>InsecurePolicy := ''Sometimes'', WildcardPolicy := ''Everything''\<rparr>"
      and w = demo_world and s = "''frontend''" and base = demo_unsecured]
    Run_policies_verbatim [where h = demo_helpers
      and opts = "demo_strict (demo_options\<lparr>WildcardPolicy := ''Everything''\<rparr>)"
      and w = demo_world and s = "''frontend''" and base = demo_unsecured]
    h
  show ?thesis
    by (simp add: Run_unfold demo_defs)
qed

text \<open>
  C9. Whatever TLS configuration the constructed route carried, the route handed to the
  annotation step has a TLS configuration with the termination mode passthrough, the
  insecure-edge policy equal to the \<^verbatim>\<open>InsecurePolicy\<close> option (hence unset when the option
  is empty) and every other field at its zero value. When annotation leaves the \<^verbatim>\<open>Spec\<close>
  alone, the same holds of every submitted route.
\<close>

theorem Run_tls_config:
  assumes "resolve_step h opts = Inr s" and "construct_step h opts s = Inr base"
  shows "(\<exists>r. annotated (Run_calls h opts w) = [r] \<and>
              TLS (Spec r) =
                Some \<lparr>Termination = TLSTerminationPassthrough, Certificate = [], Key = [],
                       CACertificate = [], DestinationCACertificate = [],
                       InsecureEdgeTerminationPolicy = InsecurePolicy opts\<rparr>) \<and>
         (keeps_spec h \<longrightarrow>
            (\<forall>r \<in> set (submitted (Run_calls h opts w)).
               TLS (Spec r) =
                 Some \<lparr>Termination = TLSTerminationPassthrough, Certificate = [], Key = [],
                        CACertificate = [], DestinationCACertificate = [],
                        InsecureEdgeTerminationPolicy = InsecurePolicy opts\<rparr>))"
proof (cases rule: Run_paths [where h = h and opts = opts and w = w])
  case (resolve_fails e)
  with assms show ?thesis by simp
next
  case (construct_fails s' e)
  with assms show ?thesis by simp
next
  case (annotate_fails s' r0 e)
  then show ?thesis
    by (simp add: Run_annotate_fails passthrough_route_simps TLSTerminationPassthrough_def)
next
  case (create_fails s' r0 r1 e c)
  then show ?thesis
    by (auto simp: Run_create_fails passthrough_route_simps TLSTerminationPassthrough_def
        dest: keeps_specD)
next
  case (created s' r0 r1 r2 c bytes res)
  then show ?thesis
    by (auto simp: Run_created passthrough_route_simps TLSTerminationPassthrough_def
        dest: keeps_specD)
next
  case (dry_run s' r0 r1 bytes res)
  then show ?thesis
    by (simp add: Run_dry_run passthrough_route_simps TLSTerminationPassthrough_def)
qed

theorem Run_tls_config_witness:
  "resolve_step demo_helpers (demo_options\<lparr>InsecurePolicy := ''Redirect''\<rparr>) = Inr ''frontend'' \<and>
   construct_step demo_helpers (demo_options\<lparr>InsecurePolicy := ''Redirect''\<rparr>) ''frontend'' =
     Inr demo_unsecured \<and>
   keeps_spec demo_helpers \<and>
   length (annotated (Run_calls demo_helpers (demo_options\<lparr>InsecurePolicy := ''Redirect''\<rparr>)
     demo_world)) = 1 \<and>
   TLS (Spec (hd (annotated (Run_calls demo_helpers
     (demo_options\<lparr>InsecurePolicy := ''Redirect''\<rparr>) demo_world)))) =
     Some \<lparr>Termination = ''passthrough'', Certificate = [], Key = [], CACertificate = [],
            DestinationCACertificate = [], InsecureEdgeTerminationPolicy = ''Redirect''\<rparr> \<and>
   length (submitted (Run_calls demo_helpers (demo_options\<lparr>InsecurePolicy := ''Redirect''\<rparr>)
     demo_world)) = 1 \<and>
   TLS (Spec (hd (submitted (Run_calls demo_helpers
     (demo_options\<lparr>InsecurePolicy := ''Redirect''\<rparr>) demo_world)))) =
     Some \<lparr>Termination = ''passthrough'', Certificate = [], Key = [], CACertificate = [],
            DestinationCACertificate = [], InsecureEdgeTerminationPolicy = ''Redirect''\<rparr>"
proof -
  have 1: "resolve_step demo_helpers (demo_options\<lparr>InsecurePolicy := ''Redirect''\<rparr>) =
             Inr ''frontend''"
    by (simp add: demo_defs)
  have 2: "construct_step demo_helpers (demo_options\<lparr>InsecurePolicy := ''Redirect''\<rparr>)
             ''frontend'' = Inr demo_unsecured"
    by (simp add: demo_defs)
  from Run_tls_config [OF 1 2, of demo_world] 1 2 demo_keeps_spec show ?thesis
    by (simp add: demo_redirect_calls TLSTerminationPassthrough_def)
qed

text \<open>
  C10. When service-name resolution, route construction, annotation or the remote create
  call fails, \<^verbatim>\<open>Run\<close> returns that error, the printer is not called and the output stream
  is as it was.
\<close>

theorem Run_no_output_on_error:
  "(resolve_step h opts = Inl e \<longrightarrow>
      Run_error h opts w = Some e \<and> printed (Run_calls h opts w) = [] \<and>
      out (Run_world h opts w) = out w) \<and>
   (resolve_step h opts = Inr s \<and> construct_step h opts s = Inl e \<longrightarrow>
      Run_error h opts w = Some e \<and> printed (Run_calls h opts w) = [] \<and>
      out (Run_world h opts w) = out w) \<and>
   (resolve_step h opts = Inr s \<and> construct_step h opts s = Inr base \<and>
    annotate_step h opts (passthrough_route opts base) = Inl e \<longrightarrow>
      Run_error h opts w = Some e \<and> printed (Run_calls h opts w) = [] \<and>
      out (Run_world h opts w) = out w) \<and>
   (resolve_step h opts = Inr s \<and> construct_step h opts s = Inr base \<and>
    annotate_step h opts (passthrough_route opts base) = Inr noted \<and>
    DryRunStrategy (sub opts) \<noteq> DryRunClient \<and>
    create_step opts noted (cluster w) = (Inl e, c) \<longrightarrow>
      Run_error h opts w = Some e \<and> printed (Run_calls h opts w) = [] \<and>
      out (Run_world h opts w) = out w)"
proof (intro conjI impI; (elim conjE)?)
  assume "resolve_step h opts = Inl e"
  then show "Run_error h opts w = Some e" "printed (Run_calls h opts w) = []"
    "out (Run_world h opts w) = out w"
    by (simp_all add: Run_resolve_fails)
next
  assume "resolve_step h opts = Inr s" "construct_step h opts s = Inl e"
  then show "Run_error h opts w = Some e" "printed (Run_calls h opts w) = []"
    "out (Run_world h opts w) = out w"
    by (simp_all add: Run_construct_fails)
next
  assume "resolve_step h opts = Inr s" "construct_step h opts s = Inr base"
    "annotate_step h opts (passthrough_route opts base) = Inl e"
  then show "Run_error h opts w = Some e" "printed (Run_calls h opts w) = []"
    "out (Run_world h opts w) = out w"
    by (simp_all add: Run_annotate_fails)
next
  assume "resolve_step h opts = Inr s" "construct_step h opts s = Inr base"
    "annotate_step h opts (passthrough_route opts base) = Inr noted"
    "DryRunStrategy (sub opts) \<noteq> DryRunClient"
    "create_step opts noted (cluster w) = (Inl e, c)"
  then show "Run_error h opts w = Some e" "printed (Run_calls h opts w) = []"
    "out (Run_world h opts w) = out w"
    by (simp_all add: Run_create_fails)
qed

theorem Run_no_output_on_error_witness:
  "Run_error demo_helpers (demo_options\<lparr>Service := []\<rparr>) demo_world =
     Some ''you need to provide a service name via --service'' \<and>
   out (Run_world demo_helpers (demo_options\<lparr>Service := []\<rparr>) demo_world) = [] \<and>
   Run_error demo_helpers (demo_options\<lparr>Service := ''missing''\<rparr>) demo_world =
     Some ''services missing not found'' \<and>
   out (Run_world demo_helpers (demo_options\<lparr>Service := ''missing''\<rparr>) demo_world) = [] \<and>
   Run_error demo_broken_encoder demo_options demo_world = Some ''unable to encode the route'' \<and>
   out (Run_world demo_broken_encoder demo_options demo_world) = [] \<and>
   Run_error demo_helpers demo_options demo_taken =
     Some ''routes.route.openshift.io already exists'' \<and>
   out (Run_world demo_helpers demo_options demo_taken) = [] \<and>
   printed (Run_calls demo_helpers demo_options demo_taken) = []"
proof -
  have "resolve_step demo_helpers (demo_options\<lparr>Service := []\<rparr>) =
          Inl ''you need to provide a service name via --service''"
    by (simp add: demo_defs)
  with Run_no_output_on_error [where h = demo_helpers
      and opts = "demo_options\<lparr>Service := []\<rparr>" and w = demo_world
      and e = "''you need to provide a service name via --service''"]
  have 1: "Run_error demo_helpers (demo_options\<lparr>Service := []\<rparr>) demo_world =
        Some ''you need to provide a service name via --service''"
    "out (Run_world demo_helpers (demo_options\<lparr>Service := []\<rparr>) demo_world) = []"
    by (simp_all add: demo_world_def)
  have "resolve_step demo_helpers (demo_options\<lparr>Service := ''missing''\<rparr>) = Inr ''missing''"
    "construct_step demo_helpers (demo_options\<lparr>Service := ''missing''\<rparr>) ''missing'' =
       Inl ''services missing not found''"
    by (simp_all add: demo_defs)
  with Run_no_output_on_error [where h = demo_helpers
      and opts = "demo_options\<lparr>Service := ''missing''\<rparr>" and w = demo_world
      and s = "''missing''" and e = "''services missing not found''"]
  have 2: "Run_error demo_helpers (demo_options\<lparr>Service := ''missing''\<rparr>) demo_world =
        Some ''services missing not found''"
    "out (Run_world demo_helpers (demo_options\<lparr>Service := ''missing''\<rparr>) demo_world) = []"
    by (simp_all add: demo_world_def)
  have "resolve_step demo_broken_encoder demo_options = Inr ''frontend''"
    "construct_step demo_broken_encoder demo_options ''frontend'' = Inr demo_unsecured"
    "annotate_step demo_broken_encoder demo_options
       (passthrough_route demo_options demo_unsecured) = Inl ''unable to encode the route''"
    by (simp_all add: demo_defs)
  with Run_no_output_on_error [where h = demo_broken_encoder and opts = demo_options
      and w = demo_world and s = "''frontend''" and base = demo_unsecured
      and e = "''unable to encode the route''"]
  have 3: "Run_error demo_broken_encoder demo_options demo_world =
        Some ''unable to encode the route''"
    "out (Run_world demo_broken_encoder demo_options demo_world) = []"
    by (simp_all add: demo_world_def)
  have "resolve_step demo_helpers demo_options = Inr ''frontend''"
    "construct_step demo_helpers demo_options ''frontend'' = Inr demo_unsecured"
    "annotate_step demo_helpers demo_options (passthrough_route demo_options demo_unsecured) =
       Inr demo_annotated"
    "DryRunStrategy (sub demo_options) \<noteq> DryRunClient"
    "create_step demo_options demo_annotated (cluster demo_taken) =
       (Inl ''routes.route.openshift.io already exists'', cluster demo_taken)"
    by (simp_all add: demo_defs)
  with Run_no_output_on_error [where h = demo_helpers and opts = demo_options
      and w = demo_taken and s = "''frontend''" and base = demo_unsecured
      and noted = demo_annotated and c = "cluster demo_taken"
      and e = "''routes.route.openshift.io already exists''"]
  have 4: "Run_error demo_helpers demo_options demo_taken =
        Some ''routes.route.openshift.io already exists''"
    "out (Run_world demo_helpers demo_options demo_taken) = []"
    "printed (Run_calls demo_helpers demo_options demo_taken) = []"
    by (simp_all add: demo_taken_def)
  from 1 2 3 4 show ?thesis by blast
qed

section \<open>Properties of the startup configuration\<close>

text \<open>
  C7. \<^verbatim>\<open>shimKubectlForOc\<close> looks up exactly one environment variable,
  \<^verbatim>\<open>KUBERNETES_MASTER\<close>, and does not change the environment; the value of that variable
  (the empty string when it is not set) becomes the \<^verbatim>\<open>Server\<close> of the toolkit's cluster
  defaults; and two environments that agree on that variable give the same configuration.
\<close>

theorem shimKubectlForOc_reads_master:
  "lookups (snd (shimKubectlForOc origin p k)) = lookups p @ [''KUBERNETES_MASTER''] \<and>
   environ (snd (shimKubectlForOc origin p k)) = environ p \<and>
   Server (ClusterDefaults (fst (shimKubectlForOc origin p k))) =
     (case environ p ''KUBERNETES_MASTER'' of None \<Rightarrow> [] | Some v \<Rightarrow> v) \<and>
   (environ p' ''KUBERNETES_MASTER'' = environ p ''KUBERNETES_MASTER'' \<longrightarrow>
      fst (shimKubectlForOc origin p' k) = fst (shimKubectlForOc origin p k))"
  by (simp add: shimKubectlForOc_def Getenv_def Let_def)

theorem shimKubectlForOc_reads_master_witness:
  "environ demo_process_elsewhere ''KUBERNETES_MASTER'' =
     environ demo_process ''KUBERNETES_MASTER'' \<and>
   environ demo_process_elsewhere ''KUBECONFIG'' \<noteq> environ demo_process ''KUBECONFIG'' \<and>
   fst (shimKubectlForOc demo_origin demo_process_elsewhere demo_toolkit) =
     fst (shimKubectlForOc demo_origin demo_process demo_toolkit) \<and>
   lookups (snd (shimKubectlForOc demo_origin demo_process demo_toolkit)) =
     [''KUBERNETES_MASTER''] \<and>
   Server (ClusterDefaults (fst (shimKubectlForOc demo_origin demo_process demo_toolkit))) =
     ''https://api.example.com:6443''"
  using shimKubectlForOc_reads_master [of demo_origin demo_process demo_toolkit
      demo_process_elsewhere]
  by (simp add: demo_process_def demo_process_elsewhere_def)

end
